theory Spec2Isabelle
  imports Main "HOL-Library.Code_Target_Numeral"
begin

section \<open>Text\<close>

text \<open>
  A Python \<open>str\<close> is modelled by the list of its UTF-8 bytes, so that equality, dictionary
  lookup, concatenation and the counting or removal of an ASCII character are exactly those
  of Python. (The texts are sequences of Unicode scalar values; a list of bytes that is no
  UTF-8 stands for no text.)

  \<open>strip\<close> and the regular expression \<open>\\s\<close> are modelled for every text: both go by
  \<open>str.isspace\<close>, which holds of 29 characters, ten of them ASCII. \<open>upper\<close> and
  \<open>float\<close> are modelled by what they do on ASCII text; on other text Python does more: it
  puts the letters of every script in upper case and reads the digits of every script. What
  is stated below of these two is stated of ASCII text.
\<close>

definition SPACES :: "string list" where
  \<comment> \<open>the characters of which \<open>str.isspace\<close> holds, in UTF-8: U+0009 to U+000D, U+001C to
      U+001F, U+0020, U+0085, U+00A0, U+1680, U+2000 to U+200A, U+2028, U+2029, U+202F,
      U+205F, U+3000\<close>
  "SPACES =
     [[CHR 0x09], [CHR 0x0A], [CHR 0x0B], [CHR 0x0C], [CHR 0x0D], [CHR 0x1C], [CHR 0x1D],
      [CHR 0x1E], [CHR 0x1F], [CHR 0x20], [CHR 0xC2, CHR 0x85], [CHR 0xC2, CHR 0xA0],
      [CHR 0xE1, CHR 0x9A, CHR 0x80], [CHR 0xE2, CHR 0x80, CHR 0x80],
      [CHR 0xE2, CHR 0x80, CHR 0x81], [CHR 0xE2, CHR 0x80, CHR 0x82],
      [CHR 0xE2, CHR 0x80, CHR 0x83], [CHR 0xE2, CHR 0x80, CHR 0x84],
      [CHR 0xE2, CHR 0x80, CHR 0x85], [CHR 0xE2, CHR 0x80, CHR 0x86],
      [CHR 0xE2, CHR 0x80, CHR 0x87], [CHR 0xE2, CHR 0x80, CHR 0x88],
      [CHR 0xE2, CHR 0x80, CHR 0x89], [CHR 0xE2, CHR 0x80, CHR 0x8A],
      [CHR 0xE2, CHR 0x80, CHR 0xA8], [CHR 0xE2, CHR 0x80, CHR 0xA9],
      [CHR 0xE2, CHR 0x80, CHR 0xAF], [CHR 0xE2, CHR 0x81, CHR 0x9F],
      [CHR 0xE3, CHR 0x80, CHR 0x80]]"

definition leading_space :: "string list \<Rightarrow> string \<Rightarrow> string option" where
  \<comment> \<open>the character of the table the text begins with\<close>
  "leading_space table s = find (\<lambda>w. w \<noteq> [] \<and> take (length w) s = w) table"

function strip_left :: "string list \<Rightarrow> string \<Rightarrow> string" where
  \<comment> \<open>the text without the characters of the table that it begins with\<close>
  "strip_left table s =
     (case leading_space table s of
        None \<Rightarrow> s
      | Some w \<Rightarrow> strip_left table (drop (length w) s))"
  by pat_completeness auto
termination
proof (relation "measure (\<lambda>(table, s). length s)")
  show "wf (measure (\<lambda>(table, s). length s))" by simp
next
  fix table :: "string list" and s w :: string
  assume "leading_space table s = Some w"
  then have "w \<noteq> []" "take (length w) s = w"
    by (auto simp: leading_space_def find_Some_iff)
  then have "0 < length w" "length (take (length w) s) = length w"
    by simp_all
  then have "0 < length w" "length w \<le> length s"
    by simp_all
  then show "((table, drop (length w) s), (table, s)) \<in> measure (\<lambda>(table, s). length s)"
    by (cases w) auto
qed

declare strip_left.simps [simp del]

definition strip :: "string \<Rightarrow> string" where
  \<comment> \<open>\<open>s.strip()\<close>: the whitespace at the end is the whitespace, read backwards, at the start
      of the text read backwards\<close>
  "strip s = rev (strip_left (map rev SPACES) (rev (strip_left SPACES s)))"

definition upper_char :: "char \<Rightarrow> char" where
  "upper_char c = (let n = (of_char c :: nat) in if 97 \<le> n \<and> n \<le> 122 then char_of (n - 32) else c)"

definition upper :: "string \<Rightarrow> string" where
  \<comment> \<open>\<open>s.upper()\<close> on ASCII text\<close>
  "upper s = map upper_char s"

definition ascii :: "string \<Rightarrow> bool" where
  "ascii s = list_all (\<lambda>c. (of_char c :: nat) < 128) s"

definition remove_commas :: "string \<Rightarrow> string" where
  \<comment> \<open>\<open>s.replace(',', '')\<close>\<close>
  "remove_commas s = filter (\<lambda>c. c \<noteq> CHR '','') s"

function remove_whitespace :: "string \<Rightarrow> string" where
  \<comment> \<open>\<open>re.sub(r'\\s+', '', s)\<close>: deleting every maximal run of whitespace deletes every
      whitespace character\<close>
  "remove_whitespace s =
     (case s of
        [] \<Rightarrow> []
      | c # cs \<Rightarrow>
          (case leading_space SPACES s of
             None \<Rightarrow> c # remove_whitespace cs
           | Some w \<Rightarrow> remove_whitespace (drop (length w) s)))"
  by pat_completeness auto
termination
proof (relation "measure length")
  show "wf (measure length)" by simp
next
  fix s cs :: string and c :: char
  assume "s = c # cs"
  then show "(cs, s) \<in> measure length" by simp
next
  fix s cs w :: string and c :: char
  assume "s = c # cs" "leading_space SPACES s = Some w"
  then have "w \<noteq> []" "take (length w) s = w"
    by (auto simp: leading_space_def find_Some_iff)
  then have "0 < length w" "length (take (length w) s) = length w"
    by simp_all
  then have "0 < length w" "length w \<le> length s"
    by simp_all
  then show "(drop (length w) s, s) \<in> measure length"
    by (cases w) auto
qed

declare remove_whitespace.simps [simp del]

definition count :: "string \<Rightarrow> char \<Rightarrow> nat" where
  \<comment> \<open>\<open>s.count(c)\<close> for a single character \<open>c\<close>\<close>
  "count s c = length (filter (\<lambda>d. d = c) s)"

datatype error = ValueError | KeyError | IndexError | FileNotFoundError | UnicodeDecodeError | OSError

section \<open>Delimiter detection\<close>

text \<open>
  A file on disk is its bytes, together with whether the UTF-8 decoder gets through the
  first line without a \<open>UnicodeDecodeError\<close>. A path that cannot be opened is \<open>None\<close>.
\<close>

record text_file =
  file_bytes :: string
  utf8_ok :: bool

definition latin1_char :: "char \<Rightarrow> string" where
  \<comment> \<open>the UTF-8 form of the character that Latin-1 assigns to one byte\<close>
  "latin1_char c = (let n = (of_char c :: nat) in
     if n < 128 then [c] else [char_of (192 + n div 64), char_of (128 + n mod 64)])"

definition decode_latin1 :: "string \<Rightarrow> string" where
  "decode_latin1 bs = concat (map latin1_char bs)"

definition decode_utf8 :: "text_file \<Rightarrow> error + string" where
  "decode_utf8 f = (if utf8_ok f then Inr (file_bytes f) else Inl UnicodeDecodeError)"

fun readline :: "string \<Rightarrow> string" where
  \<comment> \<open>\<open>f.readline()\<close> on a file opened with \<open>newline=''\<close>: the line ends after the first
      LF, CR or CR LF, which stays in the result\<close>
  "readline [] = []"
| "readline (c # cs) =
     (if c = CHR 0x0A then [c]
      else if c = CHR 0x0D then
        (case cs of [] \<Rightarrow> [c] | d # _ \<Rightarrow> if d = CHR 0x0A then [c, d] else [c])
      else c # readline cs)"

definition pick_delimiter :: "string \<Rightarrow> char" where
  \<comment> \<open>\<open>';' if first.count(';') > first.count(',') else ','\<close>\<close>
  "pick_delimiter first = (if count first (CHR '';'') > count first (CHR '','') then CHR '';'' else CHR '','')"

definition detect_delimiter :: "text_file option \<Rightarrow> error + char" where
  "detect_delimiter file =
     (case file of
        None \<Rightarrow> Inl FileNotFoundError
      | Some f \<Rightarrow>
          (case decode_utf8 f of
             Inr text \<Rightarrow> Inr (pick_delimiter (readline text))
           | Inl UnicodeDecodeError \<Rightarrow> Inr (pick_delimiter (readline (decode_latin1 (file_bytes f))))
           | Inl e \<Rightarrow> Inl e))"

section \<open>Numbers\<close>

text \<open>
  A Python \<open>float\<close> is an IEEE 754 double: a signed dyadic number \<open>m * 2 ^ e\<close> (sign,
  mantissa, exponent), an infinity or a NaN. \<open>Finite True 0 e\<close> is the negative zero.
\<close>

datatype pyfloat = Finite bool nat int | Infinity bool | NaN

definition zero :: pyfloat where
  \<comment> \<open>the literal \<open>0.0\<close>\<close>
  "zero = Finite False 0 0"

definition c_isspace :: "char \<Rightarrow> bool" where
  \<comment> \<open>the whitespace \<open>float\<close> skips around an ASCII text: TAB, LF, VT, FF, CR and the blank\<close>
  "c_isspace c = (let n = (of_char c :: nat) in (9 \<le> n \<and> n \<le> 13) \<or> n = 32)"

definition c_strip :: "string \<Rightarrow> string" where
  "c_strip s = rev (dropWhile c_isspace (rev (dropWhile c_isspace s)))"

definition is_digit :: "char \<Rightarrow> bool" where
  "is_digit c = (let n = (of_char c :: nat) in 48 \<le> n \<and> n \<le> 57)"

definition digit_value :: "char \<Rightarrow> nat" where
  "digit_value c = of_char c - 48"

definition int_of_digits :: "string \<Rightarrow> nat" where
  "int_of_digits ds = foldl (\<lambda>n c. 10 * n + digit_value c) 0 ds"

fun underscores_ok :: "char \<Rightarrow> string \<Rightarrow> bool" where
  \<comment> \<open>an underscore is allowed only between two digits; the first argument is the previous
      character\<close>
  "underscores_ok prev [] = (prev \<noteq> CHR ''_'')"
| "underscores_ok prev (c # cs) =
     (if c = CHR ''_'' then is_digit prev \<and> underscores_ok c cs
      else (prev = CHR ''_'' \<longrightarrow> is_digit c) \<and> underscores_ok c cs)"

definition split_sign :: "string \<Rightarrow> bool \<times> string" where
  \<comment> \<open>an optional sign; \<open>True\<close> is the minus\<close>
  "split_sign s = (case s of
       [] \<Rightarrow> (False, [])
     | c # cs \<Rightarrow> if c = CHR ''-'' then (True, cs) else if c = CHR ''+'' then (False, cs) else (False, s))"

definition parse_decimal :: "string \<Rightarrow> (nat \<times> int) option" where
  \<comment> \<open>digits, an optional point and digits (one digit at least in all), an optional exponent
      \<open>e\<close> or \<open>E\<close> with sign and digits; the result \<open>(d, k)\<close> stands for \<open>d * 10 ^ k\<close>\<close>
  "parse_decimal body =
     (let ip = takeWhile is_digit body;
          r1 = dropWhile is_digit body;
          (fp, r2) = (case r1 of
                        [] \<Rightarrow> ([], [])
                      | c # r \<Rightarrow> if c = CHR ''.'' then (takeWhile is_digit r, dropWhile is_digit r)
                                 else ([], r1))
      in if ip = [] \<and> fp = [] then None
         else (case r2 of
                 [] \<Rightarrow> Some (int_of_digits (ip @ fp), - int (length fp))
               | c # r \<Rightarrow>
                   if c = CHR ''e'' \<or> c = CHR ''E'' then
                     (let (eneg, ed) = split_sign r
                      in if ed \<noteq> [] \<and> list_all is_digit ed
                         then Some (int_of_digits (ip @ fp),
                                    (if eneg then - int (int_of_digits ed) else int (int_of_digits ed))
                                      - int (length fp))
                         else None)
                   else None))"

fun bitlen :: "nat \<Rightarrow> nat" where
  \<comment> \<open>the number of binary digits\<close>
  "bitlen n = (if n = 0 then 0 else Suc (bitlen (n div 2)))"

declare bitlen.simps [simp del]

definition round_half_even :: "nat \<Rightarrow> nat \<Rightarrow> nat" where
  \<comment> \<open>\<open>a / b\<close> rounded to the nearest integer, a tie to the even one\<close>
  "round_half_even a b =
     (let q = a div b; r = a mod b
      in if 2 * r < b then q else if b < 2 * r then q + 1 else if even q then q else q + 1)"

definition floor_log2 :: "nat \<Rightarrow> nat \<Rightarrow> int" where
  \<comment> \<open>the integer \<open>k\<close> with \<open>2 ^ k \<le> num / den < 2 ^ (k + 1)\<close>, for positive \<open>num\<close> and \<open>den\<close>\<close>
  "floor_log2 num den =
     (let k = int (bitlen num) - int (bitlen den)
      in if (if 0 \<le> k then den * 2 ^ nat k \<le> num else den \<le> num * 2 ^ nat (- k)) then k else k - 1)"

definition round_double :: "bool \<Rightarrow> nat \<Rightarrow> int \<Rightarrow> pyfloat" where
  \<comment> \<open>the double nearest to \<open>digits * 10 ^ exp10\<close>: a mantissa of 53 bits at most, an exponent
      of -1074 at least, ties to even, and an infinity from \<open>2 ^ 1024\<close> on\<close>
  "round_double neg digits exp10 =
     (if digits = 0 then Finite neg 0 0
      else
        let num = digits * 10 ^ nat exp10;
            den = 10 ^ nat (- exp10);
            e = max (floor_log2 num den - 52) (- 1074);
            m = (if e < 0 then round_half_even (num * 2 ^ nat (- e)) den
                 else round_half_even num (den * 2 ^ nat e))
        in if 971 < e \<or> (e = 971 \<and> 2 ^ 53 \<le> m) then Infinity neg else Finite neg m e)"

definition py_float :: "string \<Rightarrow> error + pyfloat" where
  \<comment> \<open>\<open>float(s)\<close> on ASCII text; \<open>ValueError\<close> is the only exception it raises on a \<open>str\<close>\<close>
  "py_float s =
     (let t = c_strip s
      in if \<not> underscores_ok (CHR 0x00) t then Inl ValueError
         else
           let (neg, body) = split_sign (filter (\<lambda>c. c \<noteq> CHR ''_'') t)
           in if upper body = ''INF'' \<or> upper body = ''INFINITY'' then Inr (Infinity neg)
              else if upper body = ''NAN'' then Inr NaN
              else (case parse_decimal body of
                      None \<Rightarrow> Inl ValueError
                    | Some (digits, exp10) \<Rightarrow> Inr (round_double neg digits exp10)))"

definition digit_char :: "nat \<Rightarrow> char" where
  "digit_char d = char_of (48 + d)"

fun str_nat :: "nat \<Rightarrow> string" where
  \<comment> \<open>the decimal digits of a natural number\<close>
  "str_nat n = (if n < 10 then [digit_char n] else str_nat (n div 10) @ [digit_char (n mod 10)])"

declare str_nat.simps [simp del]

definition format_2f :: "pyfloat \<Rightarrow> string" where
  \<comment> \<open>\<open>f"{x:.2f}"\<close>: the exact value rounded to hundredths, ties to even; the sign is kept
      even when the digits are all zero\<close>
  "format_2f x =
     (case x of
        Finite neg m e \<Rightarrow>
          (let n = (if 0 \<le> e then m * 100 * 2 ^ nat e else round_half_even (m * 100) (2 ^ nat (- e)))
           in (if neg then ''-'' else '''') @ str_nat (n div 100) @ ''.''
                @ [digit_char (n mod 100 div 10), digit_char (n mod 10)])
      | Infinity neg \<Rightarrow> (if neg then ''-inf'' else ''inf'')
      | NaN \<Rightarrow> ''nan'')"

definition parse_number :: "string \<Rightarrow> pyfloat" where
  \<comment> \<open>\<open>try: x = float(text.replace(',', '')) if text else 0.0\<close>
      \<open>except Exception: x = 0.0\<close>\<close>
  "parse_number text =
     (case (if text \<noteq> [] then py_float (remove_commas text) else Inr zero) of
        Inr x \<Rightarrow> x
      | Inl e \<Rightarrow> zero)"

section \<open>Rows and the salesperson directory\<close>

text \<open>
  An input row is a Python \<open>dict\<close> from column names to texts or \<open>None\<close>: an association
  list in insertion order, looked up with \<open>map_of\<close>. (A \<open>dict\<close> holds no key twice; nothing
  below depends on it. The key \<open>None\<close>, under which \<open>csv.DictReader\<close> files the surplus cells
  of a long line, is no column name and is never asked for.) A TemplateRow is a \<open>dict\<close> from
  output column names to texts.
\<close>

type_synonym row = "(string \<times> string option) list"

type_synonym template_row = "string \<rightharpoonup> string"

definition TEMPLATE_HEADERS :: "string list" where
  "TEMPLATE_HEADERS =
     [''name'', ''partner_id'', ''user_id'', ''Cust #'', ''Salesperson'', ''activity_ids'',
      ''order_line/name'', ''order_line/product_uom_qty'', ''order_line/price_unit'',
      ''order_line/product_id'', ''order_line/product_template_id/name'',
      ''order_line/product_template_id'']"

definition and_then :: "error + 'a \<Rightarrow> ('a \<Rightarrow> error + 'b) \<Rightarrow> error + 'b" where
  \<comment> \<open>sequencing: an exception of the first part leaves the second undone\<close>
  "and_then m f = (case m of Inl e \<Rightarrow> Inl e | Inr x \<Rightarrow> f x)"

definition keys :: "row \<Rightarrow> string list" where
  \<comment> \<open>\<open>list(row.keys())\<close>\<close>
  "keys r = map fst r"

definition contains :: "row \<Rightarrow> string \<Rightarrow> bool" where
  \<comment> \<open>\<open>k in row\<close>\<close>
  "contains r k = (k \<in> set (keys r))"

definition getitem :: "row \<Rightarrow> string \<Rightarrow> error + string option" where
  \<comment> \<open>\<open>row[k]\<close>\<close>
  "getitem r k = (case map_of r k of None \<Rightarrow> Inl KeyError | Some v \<Rightarrow> Inr v)"

definition dict_get :: "row \<Rightarrow> string \<Rightarrow> string option" where
  \<comment> \<open>\<open>row.get(k)\<close>\<close>
  "dict_get r k = (case map_of r k of None \<Rightarrow> None | Some v \<Rightarrow> v)"

definition list_index :: "'a list \<Rightarrow> nat \<Rightarrow> error + 'a" where
  \<comment> \<open>\<open>xs[i]\<close> for \<open>i \<ge> 0\<close>\<close>
  "list_index xs i = (if i < length xs then Inr (xs ! i) else Inl IndexError)"

definition or_else :: "string \<Rightarrow> string \<Rightarrow> string" where
  \<comment> \<open>\<open>a or b\<close> on texts: the empty text is false\<close>
  "or_else a b = (if a \<noteq> [] then a else b)"

definition opt_or_else :: "string option \<Rightarrow> string \<Rightarrow> string" where
  \<comment> \<open>\<open>a or b\<close> where \<open>a\<close> is a text or \<open>None\<close>\<close>
  "opt_or_else a b = (case a of None \<Rightarrow> b | Some s \<Rightarrow> or_else s b)"

definition truthy :: "string option \<Rightarrow> bool" where
  \<comment> \<open>\<open>if k:\<close> where \<open>k\<close> is a text or \<open>None\<close>\<close>
  "truthy k = (case k of None \<Rightarrow> False | Some s \<Rightarrow> s \<noteq> [])"

fun get_val :: "row \<Rightarrow> string list \<Rightarrow> error + string" where
  "get_val r [] = Inr ''''"
| "get_val r (k # ks) =
     (if contains r k then
        and_then (getitem r k) (\<lambda>v.
          case v of
            Some text \<Rightarrow> Inr (strip text)
          | None \<Rightarrow> get_val r ks)
      else get_val r ks)"

definition doc_keys :: "string list" where
  "doc_keys = [''Doc #'', ''DOC #'', ''Doc#'', ''DOC#'', ''Doc No'', ''DOC NO'', ''Doc'']"

definition customer_keys :: "string list" where
  "customer_keys = [''Customer Name'', ''CUSTOMER NAME'', ''Customer'', ''CLIENTE'', ''Cust #'']"

definition sku_keys :: "string list" where
  "sku_keys = [''SKU'', ''Sku'', ''sku'', ''Item'', ''ITEM'']"

definition desc_keys :: "string list" where
  \<comment> \<open>the last alias is written with its UTF-8 bytes\<close>
  "desc_keys = [''Description'', ''DESCRIPTION'', ''description'', ''DESCRIPCION'',
                ''DESCRIPCI'' @ [CHR 0xC3, CHR 0x83, CHR 0xE2, CHR 0x80, CHR 0x9C] @ ''N'']"

definition qty_keys :: "string list" where
  "qty_keys = [''Qty'', ''QTY'', ''Quantity'']"

definition price_keys :: "string list" where
  "price_keys = [''Price'', ''PRICE'', ''Unit Price'', ''UnitPrice'']"

definition salesperson_keys :: "string list" where
  "salesperson_keys = [''Salesperson'', ''SALESPERSON'', ''Sales Person'', ''Sales_Person'', ''Salesperson'']"

definition cust_keys :: "string list" where
  "cust_keys = [''Cust #'']"

definition first_in :: "string list \<Rightarrow> string list \<Rightarrow> string option" where
  \<comment> \<open>\<open>next((k for k in header_keys if k in aliases), None)\<close>\<close>
  "first_in header_keys aliases = find (\<lambda>k. k \<in> set aliases) header_keys"

definition header_keys_of :: "row list \<Rightarrow> error + string list" where
  \<comment> \<open>\<open>list(epicor_rows[0].keys()) if epicor_rows else []\<close>\<close>
  "header_keys_of epicor_rows =
     (if epicor_rows \<noteq> [] then and_then (list_index epicor_rows 0) (\<lambda>r. Inr (keys r)) else Inr [])"

text \<open>
  The directory file \<open>Sales Person List.csv\<close>, as the loader meets it: absent; read to the
  end by the UTF-8 reader; read by the UTF-8 reader up to a \<open>UnicodeDecodeError\<close> and then
  again, from the start, by the Latin-1 reader; or there, but not to be opened or not to be
  read to the end (an \<open>OSError\<close> of \<open>open\<close>, a \<open>csv.Error\<close> of the reader, written
  \<open>OSError\<close> here): the loader catches nothing but the \<open>UnicodeDecodeError\<close>, so such an
  exception leaves it. The rows are those of \<open>csv.DictReader\<close>.
\<close>

datatype directory_file = Absent | Utf8 "row list" | Latin1 "row list" "row list" | Unreadable

definition add_entry :: "(string \<rightharpoonup> string) \<Rightarrow> row \<Rightarrow> (string \<rightharpoonup> string)" where
  \<comment> \<open>the body of the loader's loop\<close>
  "add_entry mapping r =
     (let code = upper (strip (opt_or_else (dict_get r ''Code'') ''''));
          name = strip (opt_or_else (dict_get r ''Name'') '''')
      in if code \<noteq> [] \<and> name \<noteq> [] then mapping(code \<mapsto> name) else mapping)"

definition load_salesperson_map :: "directory_file \<Rightarrow> error + (string \<rightharpoonup> string)" where
  "load_salesperson_map file =
     (case file of
        Absent \<Rightarrow> Inr Map.empty
      | Utf8 rows \<Rightarrow> Inr (foldl add_entry Map.empty rows)
      | Latin1 seen rows \<Rightarrow> Inr (foldl add_entry (foldl add_entry Map.empty seen) rows)
      | Unreadable \<Rightarrow> Inl OSError)"

record datetime =
  month :: nat
  day :: nat
  hour :: nat
  minute :: nat

definition two_digits :: "nat \<Rightarrow> string" where
  "two_digits n = [digit_char (n div 10 mod 10), digit_char (n mod 10)]"

definition strftime_mdHM :: "datetime \<Rightarrow> string" where
  \<comment> \<open>\<open>strftime('%m%d%H%M')\<close>\<close>
  "strftime_mdHM t = two_digits (month t) @ two_digits (day t) @ two_digits (hour t) @ two_digits (minute t)"

text \<open>
  What the conversion reads besides its argument: the module's cache of the directory
  (\<open>None\<close> until the first load), the directory file and the clock.
\<close>

record world =
  salesperson_cache :: "(string \<rightharpoonup> string) option"
  directory :: directory_file
  now :: datetime

definition get_salesperson_map :: "world \<Rightarrow> (error + (string \<rightharpoonup> string)) \<times> world" where
  "get_salesperson_map w =
     (case salesperson_cache w of
        None \<Rightarrow>
          (case load_salesperson_map (directory w) of
             Inl e \<Rightarrow> (Inl e, w)
           | Inr m \<Rightarrow> (Inr m, w\<lparr>salesperson_cache := Some m\<rparr>))
      | Some m \<Rightarrow> (Inr m, w))"

section \<open>The conversion\<close>

definition DEFAULT_USER :: string where
  "DEFAULT_USER = ''Default User''"

definition DEFAULT_SALESPERSON :: string where
  "DEFAULT_SALESPERSON = ''Jabes Omar De La Cruz''"

definition blank_header :: template_row where
  \<comment> \<open>the initial \<open>row_out\<close>\<close>
  "blank_header = [''name'' \<mapsto> '''', ''partner_id'' \<mapsto> '''', ''user_id'' \<mapsto> '''',
                   ''Cust #'' \<mapsto> '''', ''Salesperson'' \<mapsto> '''', ''activity_ids'' \<mapsto> '''']"

definition update_order_line :: "template_row \<Rightarrow> string \<Rightarrow> string \<Rightarrow> pyfloat \<Rightarrow> pyfloat \<Rightarrow> template_row" where
  \<comment> \<open>\<open>row_out.update({...})\<close>, the same in both loops\<close>
  "update_order_line row_out sku description quantity unit_price =
     (let product_template_id = ''['' @ sku @ ''] '' @ description
      in row_out(''order_line/name'' \<mapsto> product_template_id,
                 ''order_line/product_uom_qty'' \<mapsto> format_2f quantity,
                 ''order_line/price_unit'' \<mapsto> format_2f unit_price,
                 ''order_line/product_id'' \<mapsto> product_template_id,
                 ''order_line/product_template_id/name'' \<mapsto> description,
                 ''order_line/product_template_id'' \<mapsto> product_template_id))"

fun for_each :: "('s \<Rightarrow> 'a \<Rightarrow> error + 's) \<Rightarrow> 's \<Rightarrow> 'a list \<Rightarrow> error + 's" where
  \<comment> \<open>a \<open>for\<close> loop over a list; the state is what the body assigns; an exception ends it\<close>
  "for_each body s [] = Inr s"
| "for_each body s (x # xs) = and_then (body s x) (\<lambda>s'. for_each body s' xs)"

text \<open>
  The body of the loop of the document-number mode. The state is \<open>current_doc\<close> (\<open>None\<close>
  before the first order) and \<open>template_rows\<close>.
\<close>

definition doc_body ::
  "string \<Rightarrow> string option \<Rightarrow> string option \<Rightarrow> (string \<rightharpoonup> string)
     \<Rightarrow> string option \<times> template_row list \<Rightarrow> row \<Rightarrow> error + string option \<times> template_row list" where
  "doc_body doc_key customer_key cust_key sp_map state r =
     (let (current_doc, template_rows) = state in
      and_then (get_val r sku_keys) (\<lambda>sku.
        if sku = [] then Inr (current_doc, template_rows)
        else
          and_then (get_val r desc_keys) (\<lambda>description.
          and_then (get_val r qty_keys) (\<lambda>qty.
          and_then (get_val r price_keys) (\<lambda>price.
          and_then (get_val r [doc_key]) (\<lambda>doc_number.
          and_then (if truthy customer_key then get_val r (case customer_key of Some k \<Rightarrow> [k] | None \<Rightarrow> [])
                    else Inr '''') (\<lambda>customer_name.
          and_then (get_val r salesperson_keys) (\<lambda>code.
          and_then (if truthy cust_key then get_val r (case cust_key of Some k \<Rightarrow> [k] | None \<Rightarrow> [])
                    else Inr '''') (\<lambda>cust_value.
            let salesperson_code = upper code;
                salesperson_name = (if salesperson_code \<noteq> [] then sp_map salesperson_code else Some '''');
                quantity = parse_number qty;
                unit_price = parse_number price;
                row_out = blank_header;
                new_order = (doc_number \<noteq> [] \<and> Some doc_number \<noteq> current_doc \<and> doc_number \<noteq> ''0'');
                current_doc' = (if new_order then Some doc_number else current_doc);
                row_out' = (if new_order then
                              row_out(''name'' \<mapsto> ''O'' @ remove_whitespace doc_number,
                                      ''partner_id'' \<mapsto> or_else customer_name DEFAULT_USER,
                                      ''user_id'' \<mapsto> opt_or_else salesperson_name DEFAULT_SALESPERSON,
                                      ''Cust #'' \<mapsto> or_else cust_value (or_else customer_name DEFAULT_USER),
                                      ''Salesperson'' \<mapsto> opt_or_else salesperson_name DEFAULT_SALESPERSON)
                            else row_out)
            in Inr (current_doc',
                    template_rows @ [update_order_line row_out' sku description quantity unit_price]))))))))))"

text \<open>
  The body of the loop of the single-order fallback. The state is \<open>first\<close> and
  \<open>template_rows\<close>.
\<close>

definition single_body ::
  "string \<Rightarrow> bool \<times> template_row list \<Rightarrow> row \<Rightarrow> error + bool \<times> template_row list" where
  "single_body quotation_number state r =
     (let (first, template_rows) = state in
      and_then (get_val r sku_keys) (\<lambda>sku.
        if sku = [] then Inr (first, template_rows)
        else
          and_then (get_val r desc_keys) (\<lambda>description.
          and_then (get_val r qty_keys) (\<lambda>qty.
          and_then (get_val r price_keys) (\<lambda>price.
            let quantity = parse_number qty;
                unit_price = parse_number price;
                row_out = blank_header;
                row_out' = (if first then
                              row_out(''name'' \<mapsto> quotation_number,
                                      ''partner_id'' \<mapsto> DEFAULT_USER,
                                      ''user_id'' \<mapsto> DEFAULT_SALESPERSON,
                                      ''Cust #'' \<mapsto> DEFAULT_USER,
                                      ''Salesperson'' \<mapsto> DEFAULT_SALESPERSON)
                            else row_out)
            in Inr (False,
                    template_rows @ [update_order_line row_out' sku description quantity unit_price]))))))"

definition convert_rows :: "world \<Rightarrow> row list \<Rightarrow> (error + template_row list) \<times> world" where
  "convert_rows w epicor_rows =
     (case header_keys_of epicor_rows of
        Inl e \<Rightarrow> (Inl e, w)
      | Inr header_keys \<Rightarrow>
          (let doc_key = first_in header_keys doc_keys;
               customer_key = first_in header_keys customer_keys;
               cust_key = first_in header_keys cust_keys
           in case get_salesperson_map w of
                (Inl e, w') \<Rightarrow> (Inl e, w')
              | (Inr sp_map, w') \<Rightarrow>
                  if truthy doc_key then
                    (and_then (for_each (doc_body (case doc_key of Some k \<Rightarrow> k | None \<Rightarrow> [])
                                           customer_key cust_key sp_map) (None, []) epicor_rows)
                              (\<lambda>(current_doc, template_rows). Inr template_rows), w')
                  else
                    (let quotation_number = ''QO'' @ strftime_mdHM (now w')
                     in (and_then (for_each (single_body quotation_number) (True, []) epicor_rows)
                                  (\<lambda>(first, template_rows). Inr template_rows), w'))))"

section \<open>Notions used in the statements\<close>

definition field :: "row \<Rightarrow> string list \<Rightarrow> string" where
  \<comment> \<open>the text \<open>get_val\<close> returns\<close>
  "field r ks = (case get_val r ks of Inr v \<Rightarrow> v | Inl e \<Rightarrow> [])"

definition opt_field :: "row \<Rightarrow> string option \<Rightarrow> string" where
  \<comment> \<open>the text read through a column resolved for the file, empty when none was resolved\<close>
  "opt_field r k = (if truthy k then field r (case k of Some c \<Rightarrow> [c] | None \<Rightarrow> []) else [])"

definition has_sku :: "row \<Rightarrow> bool" where
  "has_sku r = (field r sku_keys \<noteq> [])"

definition header_of :: "row list \<Rightarrow> string list" where
  \<comment> \<open>the keys of the first row\<close>
  "header_of rows = (case rows of [] \<Rightarrow> [] | r # _ \<Rightarrow> keys r)"

definition doc_key_of :: "row list \<Rightarrow> string option" where
  "doc_key_of rows = first_in (header_of rows) doc_keys"

definition customer_key_of :: "row list \<Rightarrow> string option" where
  "customer_key_of rows = first_in (header_of rows) customer_keys"

definition cust_key_of :: "row list \<Rightarrow> string option" where
  "cust_key_of rows = first_in (header_of rows) cust_keys"

definition directory_at_hand :: "world \<Rightarrow> bool" where
  \<comment> \<open>the directory is in the cache, or its file is absent or can be read\<close>
  "directory_at_hand w =
     (case salesperson_cache w of Some m \<Rightarrow> True | None \<Rightarrow> directory w \<noteq> Unreadable)"

definition directory_of :: "world \<Rightarrow> (string \<rightharpoonup> string)" where
  \<comment> \<open>the directory a conversion started in this world works with\<close>
  "directory_of w = (case fst (get_salesperson_map w) of Inr m \<Rightarrow> m | Inl e \<Rightarrow> Map.empty)"

definition HEADER_FIELDS :: "string list" where
  "HEADER_FIELDS = [''name'', ''partner_id'', ''user_id'', ''Cust #'', ''Salesperson'']"

definition LINE_FIELDS :: "string list" where
  "LINE_FIELDS = [''order_line/name'', ''order_line/product_uom_qty'', ''order_line/price_unit'',
                  ''order_line/product_id'', ''order_line/product_template_id/name'',
                  ''order_line/product_template_id'']"

definition header_filled :: "template_row \<Rightarrow> bool" where
  \<comment> \<open>every header field is there and not empty\<close>
  "header_filled t = list_all (\<lambda>k. case t k of Some v \<Rightarrow> v \<noteq> [] | None \<Rightarrow> False) HEADER_FIELDS"

definition header_blank :: "template_row \<Rightarrow> bool" where
  \<comment> \<open>every header field is the empty text\<close>
  "header_blank t = list_all (\<lambda>k. t k = Some []) HEADER_FIELDS"

definition opens :: "string option \<Rightarrow> string \<Rightarrow> bool" where
  \<comment> \<open>the document number opens a new order group, given the tracked one\<close>
  "opens current d = (d \<noteq> [] \<and> Some d \<noteq> current \<and> d \<noteq> ''0'')"

fun group_starts :: "string option \<Rightarrow> string list \<Rightarrow> bool list" where
  \<comment> \<open>which of the document numbers, read in order, open a new order group\<close>
  "group_starts current [] = []"
| "group_starts current (d # ds) =
     (if opens current d then True # group_starts (Some d) ds else False # group_starts current ds)"

fun tracked :: "string option \<Rightarrow> string list \<Rightarrow> string option" where
  \<comment> \<open>the tracked document number after the document numbers have been read\<close>
  "tracked current [] = current"
| "tracked current (d # ds) = tracked (if opens current d then Some d else current) ds"

definition lookup_name :: "(string \<rightharpoonup> string) \<Rightarrow> string \<Rightarrow> string" where
  \<comment> \<open>the display name of a code, the default name when the code is empty or the
      directory has no name for it\<close>
  "lookup_name sp code =
     (if code = [] then DEFAULT_SALESPERSON
      else case sp code of None \<Rightarrow> DEFAULT_SALESPERSON
           | Some n \<Rightarrow> if n = [] then DEFAULT_SALESPERSON else n)"


definition plain_line :: "row \<Rightarrow> template_row" where
  \<comment> \<open>the TemplateRow of a row that opens no order\<close>
  "plain_line r = update_order_line blank_header (field r sku_keys) (field r desc_keys)
                    (parse_number (field r qty_keys)) (parse_number (field r price_keys))"

definition header_line :: "string \<Rightarrow> string option \<Rightarrow> string option \<Rightarrow> (string \<rightharpoonup> string) \<Rightarrow> row \<Rightarrow> template_row" where
  \<comment> \<open>the TemplateRow of a row that opens an order, in the document-number mode\<close>
  "header_line dk ck uk sp r =
     update_order_line
       (blank_header(''name'' \<mapsto> ''O'' @ remove_whitespace (field r [dk]),
                     ''partner_id'' \<mapsto> or_else (opt_field r ck) DEFAULT_USER,
                     ''user_id'' \<mapsto> lookup_name sp (upper (field r salesperson_keys)),
                     ''Cust #'' \<mapsto> or_else (opt_field r uk) (or_else (opt_field r ck) DEFAULT_USER),
                     ''Salesperson'' \<mapsto> lookup_name sp (upper (field r salesperson_keys))))
       (field r sku_keys) (field r desc_keys)
       (parse_number (field r qty_keys)) (parse_number (field r price_keys))"

definition quotation_line :: "string \<Rightarrow> row \<Rightarrow> template_row" where
  \<comment> \<open>the first TemplateRow of the single-order fallback\<close>
  "quotation_line q r =
     update_order_line
       (blank_header(''name'' \<mapsto> q,
                     ''partner_id'' \<mapsto> DEFAULT_USER,
                     ''user_id'' \<mapsto> DEFAULT_SALESPERSON,
                     ''Cust #'' \<mapsto> DEFAULT_USER,
                     ''Salesperson'' \<mapsto> DEFAULT_SALESPERSON))
       (field r sku_keys) (field r desc_keys)
       (parse_number (field r qty_keys)) (parse_number (field r price_keys))"

definition doc_lines :: "string \<Rightarrow> string option \<Rightarrow> string option \<Rightarrow> (string \<rightharpoonup> string) \<Rightarrow> string option \<Rightarrow> row list \<Rightarrow> template_row list" where
  \<comment> \<open>one TemplateRow for each row with a SKU, a header line where a group starts\<close>
  "doc_lines dk ck uk sp current rows =
     (let rs = filter has_sku rows
      in map (\<lambda>(start, r). if start then header_line dk ck uk sp r else plain_line r)
             (zip (group_starts current (map (\<lambda>r. field r [dk]) rs)) rs))"

definition single_lines :: "string \<Rightarrow> row list \<Rightarrow> template_row list" where
  \<comment> \<open>one TemplateRow for each row with a SKU, the first of them the quotation line\<close>
  "single_lines q rows =
     (case filter has_sku rows of [] \<Rightarrow> [] | r # rs \<Rightarrow> quotation_line q r # map plain_line rs)"

definition split_minus :: "string \<Rightarrow> bool \<times> string" where
  "split_minus s = (case s of [] \<Rightarrow> (False, []) | c # cs \<Rightarrow> if c = CHR ''-'' then (True, cs) else (False, s))"

definition column :: "string \<Rightarrow> error + template_row list \<Rightarrow> string option list" where
  \<comment> \<open>one output column of a conversion, top to bottom\<close>
  "column k result = (case result of Inr out \<Rightarrow> map (\<lambda>t. t k) out | Inl e \<Rightarrow> [])"

definition two_decimals :: "string \<Rightarrow> bool" where
  \<comment> \<open>an optional minus, one digit at least, a point and exactly two digits\<close>
  "two_decimals s =
     (case rev s of
        d2 # d1 # p # ds \<Rightarrow>
          is_digit d2 \<and> is_digit d1 \<and> p = CHR ''.''
          \<and> (let ip = snd (split_minus (rev ds)) in ip \<noteq> [] \<and> list_all is_digit ip)
      | _ \<Rightarrow> False)"



definition spec_resolve :: "string list \<Rightarrow> string list \<Rightarrow> string option" where
  \<comment> \<open>the resolution as the specification words it: the alias list is scanned in priority
      order and the first alias present among the keys of the header is taken\<close>
  "spec_resolve aliases header = find (\<lambda>a. a \<in> set header) aliases"

definition under_column :: "string option \<Rightarrow> row \<Rightarrow> string" where
  \<comment> \<open>the trimmed text a row holds under a column resolved for the file; empty when no
      column was resolved or the row holds \<open>None\<close> there\<close>
  "under_column k r =
     (case k of
        None \<Rightarrow> []
      | Some c \<Rightarrow> (case dict_get r c of None \<Rightarrow> [] | Some text \<Rightarrow> strip text))"

definition spec_has_sku :: "row list \<Rightarrow> row \<Rightarrow> bool" where
  \<comment> \<open>a row has a SKU as the specification words it: the text it holds under the SKU
      column resolved for the file is not empty\<close>
  "spec_has_sku rows r = (under_column (spec_resolve sku_keys (header_of rows)) r \<noteq> [])"

section \<open>Properties of delimiter detection\<close>

lemma of_char_lt_256: "(of_char c :: nat) < 256"
  by (rule nat_of_char_less_256)

lemma latin1_char_high:
  assumes "(of_char d :: nat) < 128" "\<not> (of_char c :: nat) < 128"
  shows "d \<notin> set (latin1_char c)"
proof -
  let ?n = "of_char c :: nat"
  have n: "128 \<le> ?n" "?n < 256" using assms(2) of_char_lt_256 [of c] by auto
  have "?n div 64 < 4" using n by (simp add: div_less_iff_less_mult)
  then have a: "(of_char (char_of (192 + ?n div 64) :: char) :: nat) = 192 + ?n div 64"
    by (simp add: of_char_of)
  have b: "(of_char (char_of (128 + ?n mod 64) :: char) :: nat) = 128 + ?n mod 64"
    by (simp add: of_char_of)
  have "d \<noteq> char_of (192 + ?n div 64)" "d \<noteq> char_of (128 + ?n mod 64)"
    using assms(1) a b by auto
  then show ?thesis using assms(2) by (simp add: latin1_char_def Let_def)
qed

lemma count_decode_latin1:
  assumes "(of_char d :: nat) < 128"
  shows "count (decode_latin1 bs) d = count bs d"
proof (induction bs)
  case Nil
  then show ?case by (simp add: decode_latin1_def count_def)
next
  case (Cons c bs)
  show ?case
  proof (cases "(of_char c :: nat) < 128")
    case True
    then show ?thesis using Cons by (simp add: decode_latin1_def count_def latin1_char_def)
  next
    case False
    have "d \<notin> set (latin1_char c)" using assms False by (rule latin1_char_high)
    moreover have "d \<noteq> c" using assms False by auto
    ultimately have "filter (\<lambda>x. x = d) (latin1_char c) = []" "c \<noteq> d"
      by (auto simp: filter_empty_conv)
    then show ?thesis using Cons by (simp add: decode_latin1_def count_def)
  qed
qed

lemma readline_decode_latin1: "readline (decode_latin1 bs) = decode_latin1 (readline bs)"
proof (induction bs rule: readline.induct)
  case 1
  then show ?case by (simp add: decode_latin1_def)
next
  case (2 c cs)
  show ?case
  proof (cases "(of_char c :: nat) < 128")
    case low: True
    then have c: "decode_latin1 (c # xs) = c # decode_latin1 xs" for xs
      by (simp add: decode_latin1_def latin1_char_def)
    show ?thesis
    proof (cases "c = CHR 0x0A")
      case True
      then show ?thesis by (simp add: decode_latin1_def latin1_char_def)
    next
      case nlf: False
      show ?thesis
      proof (cases "c = CHR 0x0D")
        case cr: True
        show ?thesis
        proof (cases cs)
          case Nil
          then show ?thesis using cr by (simp add: decode_latin1_def latin1_char_def)
        next
          case (Cons d ds)
          show ?thesis
          proof (cases "(of_char d :: nat) < 128")
            case True
            then show ?thesis using cr Cons
              by (simp add: decode_latin1_def latin1_char_def)
          next
            case False
            have "CHR 0x0A \<notin> set (latin1_char d)"
              using False by (intro latin1_char_high) simp_all
            moreover have "d \<noteq> CHR 0x0A" using False by auto
            moreover obtain x y where "latin1_char d = [x, y]"
              using False by (simp add: latin1_char_def Let_def)
            ultimately show ?thesis using cr Cons
              by (auto simp: decode_latin1_def latin1_char_def)
          qed
        qed
      next
        case False
        then show ?thesis using nlf "2.IH" c by simp
      qed
    qed
  next
    case False
    have "CHR 0x0A \<notin> set (latin1_char c)" "CHR 0x0D \<notin> set (latin1_char c)"
      using False by (intro latin1_char_high; simp)+
    moreover have "c \<noteq> CHR 0x0A" "c \<noteq> CHR 0x0D" using False by auto
    moreover obtain x y where xy: "latin1_char c = [x, y]"
      using False by (simp add: latin1_char_def Let_def)
    moreover have "decode_latin1 (c # cs) = latin1_char c @ decode_latin1 cs"
      by (simp add: decode_latin1_def)
    ultimately show ?thesis using "2.IH" by (auto simp: decode_latin1_def)
  qed
qed

lemma pick_delimiter_decode_latin1:
  "pick_delimiter (readline (decode_latin1 bs)) = pick_delimiter (readline bs)"
  by (simp add: readline_decode_latin1 pick_delimiter_def count_decode_latin1)

lemma readline_first_line:
  assumes "CHR 0x0A \<notin> set l" "CHR 0x0D \<notin> set l"
  shows "readline (l @ CHR 0x0A # rest) = l @ [CHR 0x0A]"
  using assms by (induction l) auto

text \<open>
  C9. Delimiter detection looks only at the first line of the file: whenever the file can be
  opened, through the UTF-8 reader or through the Latin-1 fallback, the result is the
  semicolon exactly when the first line holds strictly more semicolons than commas, and the
  comma otherwise, so a first line with no delimiter at all, or with as many semicolons as
  commas, gives the comma. The first line is what \<open>readline\<close> returns of the bytes.
\<close>

theorem C9_detect_delimiter:
  "detect_delimiter (Some f) =
     Inr (if count (readline (file_bytes f)) (CHR '';'') > count (readline (file_bytes f)) (CHR '','')
          then CHR '';'' else CHR '','')
   \<and> (count (readline (file_bytes f)) (CHR '';'') = count (readline (file_bytes f)) (CHR '','')
        \<longrightarrow> detect_delimiter (Some f) = Inr (CHR '',''))
   \<and> (readline (file_bytes f) = readline (file_bytes g)
        \<longrightarrow> detect_delimiter (Some f) = detect_delimiter (Some g))
   \<and> detect_delimiter (Some \<lparr>file_bytes = ''a;b;c'' @ CHR 0x0A # rest, utf8_ok = u\<rparr>) = Inr (CHR '';'')
   \<and> detect_delimiter (Some \<lparr>file_bytes = ''a,b,c'' @ CHR 0x0A # rest, utf8_ok = u\<rparr>) = Inr (CHR '','')
   \<and> detect_delimiter (Some \<lparr>file_bytes = ''abc'' @ CHR 0x0A # rest, utf8_ok = u\<rparr>) = Inr (CHR '','')"
proof -
  have main: "detect_delimiter (Some h) = Inr (pick_delimiter (readline (file_bytes h)))" for h
    by (simp add: detect_delimiter_def decode_utf8_def pick_delimiter_decode_latin1)
  show ?thesis
    by (simp add: main pick_delimiter_def count_def)
qed

theorem C9_detect_delimiter_witness:
  "count (readline ''a;b,c'') (CHR '';'') = count (readline ''a;b,c'') (CHR '','')
   \<and> detect_delimiter (Some \<lparr>file_bytes = ''a;b,c'', utf8_ok = False\<rparr>) = Inr (CHR '','')
   \<and> readline ''x;y'' = readline (''x;y'')
   \<and> detect_delimiter (Some \<lparr>file_bytes = ''x;y'', utf8_ok = True\<rparr>)
       = detect_delimiter (Some \<lparr>file_bytes = ''x;y'', utf8_ok = False\<rparr>)"
  using C9_detect_delimiter [of "\<lparr>file_bytes = ''a;b,c'', utf8_ok = False\<rparr>"]
        C9_detect_delimiter [of "\<lparr>file_bytes = ''x;y'', utf8_ok = True\<rparr>" "\<lparr>file_bytes = ''x;y'', utf8_ok = False\<rparr>"]
  by (simp add: count_def detect_delimiter_def decode_utf8_def decode_latin1_def
        latin1_char_def pick_delimiter_def)

section \<open>The conversion never raises, and what it returns\<close>

lemma contains_map_of: "contains r k \<Longrightarrow> \<exists>v. map_of r k = Some v"
  by (cases "map_of r k") (auto simp: contains_def keys_def map_of_eq_None_iff)

lemma get_val_returns: "\<exists>v. get_val r ks = Inr v"
proof (induction ks)
  case Nil
  then show ?case by simp
next
  case (Cons k ks)
  show ?case
  proof (cases "contains r k")
    case True
    then obtain v where "map_of r k = Some v" using contains_map_of by blast
    then show ?thesis using True Cons
      by (cases v) (simp_all add: and_then_def getitem_def)
  next
    case False
    then show ?thesis using Cons by simp
  qed
qed

lemma get_val_field: "get_val r ks = Inr (field r ks)"
  using get_val_returns [of r ks] by (auto simp: field_def)

lemma field_Nil: "field r [] = []"
  by (simp add: field_def)

lemma field_Cons:
  "field r (k # ks) = (case map_of r k of Some (Some text) \<Rightarrow> strip text | _ \<Rightarrow> field r ks)"
proof (cases "map_of r k")
  case None
  then have "\<not> contains r k"
    by (simp add: contains_def keys_def map_of_eq_None_iff)
  then show ?thesis using None by (simp add: field_def)
next
  case (Some v)
  then have "(k, v) \<in> set r" by (rule map_of_SomeD)
  then have "contains r k" by (force simp: contains_def keys_def)
  then show ?thesis using Some
    by (cases v) (simp_all add: field_def and_then_def getitem_def)
qed

lemma header_keys_of_returns: "header_keys_of rows = Inr (header_of rows)"
  by (cases rows) (simp_all add: header_keys_of_def header_of_def list_index_def and_then_def)

lemma first_in_Some: "first_in h al = Some k \<Longrightarrow> k \<in> set al \<and> k \<in> set h"
  by (auto simp: first_in_def find_Some_iff)

lemma empty_not_alias:
  "[] \<notin> set doc_keys" "[] \<notin> set customer_keys" "[] \<notin> set cust_keys"
  by (simp_all add: doc_keys_def customer_keys_def cust_keys_def)

lemma truthy_first_in:
  assumes "[] \<notin> set al"
  shows "truthy (first_in h al) \<longleftrightarrow> first_in h al \<noteq> None"
proof (cases "first_in h al")
  case None
  then show ?thesis by (simp add: truthy_def)
next
  case (Some k)
  then have "k \<in> set al" using first_in_Some by blast
  then have "k \<noteq> []" using assms by auto
  then show ?thesis using Some by (simp add: truthy_def)
qed

lemma opt_or_else_lookup:
  "opt_or_else (if c \<noteq> [] then sp c else Some []) DEFAULT_SALESPERSON = lookup_name sp c"
  by (simp add: opt_or_else_def or_else_def lookup_name_def split: option.splits)

lemma opt_get_val:
  "(if truthy k then get_val r (case k of Some c \<Rightarrow> [c] | None \<Rightarrow> []) else Inr '''') = Inr (opt_field r k)"
  by (simp add: opt_field_def get_val_field)

lemma doc_body_returns:
  "doc_body dk ck uk sp (current, acc) r =
     Inr (if has_sku r then
            (if opens current (field r [dk])
             then (Some (field r [dk]), acc @ [header_line dk ck uk sp r])
             else (current, acc @ [plain_line r]))
          else (current, acc))"
  unfolding doc_body_def
  by (simp add: get_val_field opt_get_val and_then_def has_sku_def opens_def Let_def
      header_line_def plain_line_def opt_or_else_lookup)

lemma single_body_returns:
  "single_body q (first, acc) r =
     Inr (if has_sku r then (False, acc @ [if first then quotation_line q r else plain_line r])
          else (first, acc))"
  unfolding single_body_def
  by (simp add: get_val_field and_then_def has_sku_def Let_def quotation_line_def plain_line_def)

lemma doc_loop_returns:
  "for_each (doc_body dk ck uk sp) (current, acc) rows =
     Inr (tracked current (map (\<lambda>r. field r [dk]) (filter has_sku rows)),
          acc @ doc_lines dk ck uk sp current rows)"
proof (induction rows arbitrary: current acc)
  case Nil
  then show ?case by (simp add: doc_lines_def)
next
  case (Cons r rows)
  show ?case
    by (simp add: doc_body_returns and_then_def Cons doc_lines_def Let_def)
qed

lemma single_loop_False:
  "for_each (single_body q) (False, acc) rows = Inr (False, acc @ map plain_line (filter has_sku rows))"
proof (induction rows arbitrary: acc)
  case Nil
  then show ?case by simp
next
  case (Cons r rows)
  show ?case by (simp add: single_body_returns and_then_def Cons)
qed

lemma single_loop_returns:
  "for_each (single_body q) (True, acc) rows =
     Inr (filter has_sku rows = [], acc @ single_lines q rows)"
proof (induction rows arbitrary: acc)
  case Nil
  then show ?case by (simp add: single_lines_def)
next
  case (Cons r rows)
  show ?case
    by (simp add: single_body_returns and_then_def Cons single_loop_False single_lines_def)
qed

lemma now_get_salesperson_map: "now (snd (get_salesperson_map w)) = now w"
  by (simp add: get_salesperson_map_def split: option.splits sum.splits)

lemma directory_fails:
  "\<not> directory_at_hand w \<Longrightarrow> fst (get_salesperson_map w) = Inl OSError"
  by (simp add: directory_at_hand_def get_salesperson_map_def load_salesperson_map_def
      split: option.splits)

lemma directory_loads:
  "directory_at_hand w \<Longrightarrow> fst (get_salesperson_map w) = Inr (directory_of w)"
  by (cases "directory w")
     (simp_all add: directory_at_hand_def directory_of_def get_salesperson_map_def
        load_salesperson_map_def split: option.splits)

lemma at_hand_examples:
  "directory_at_hand \<lparr>salesperson_cache = None, directory = Absent, now = t\<rparr>"
  "directory_at_hand \<lparr>salesperson_cache = None, directory = Utf8 rs, now = t\<rparr>"
  "directory_at_hand \<lparr>salesperson_cache = None, directory = Latin1 seen rs, now = t\<rparr>"
  "directory_at_hand \<lparr>salesperson_cache = Some m, directory = d, now = t\<rparr>"
  by (simp_all add: directory_at_hand_def)

lemma convert_rows_result:
  "fst (convert_rows w rows) =
     (case fst (get_salesperson_map w) of
        Inl e \<Rightarrow> Inl e
      | Inr sp \<Rightarrow>
          Inr (case doc_key_of rows of
                 Some dk \<Rightarrow> doc_lines dk (customer_key_of rows) (cust_key_of rows) sp None rows
               | None \<Rightarrow> single_lines (''QO'' @ strftime_mdHM (now w)) rows))"
proof (cases "get_salesperson_map w")
  case (Pair res w')
  then have w': "now w' = now w" using now_get_salesperson_map [of w] by simp
  show ?thesis
  proof (cases res)
    case (Inl e)
    then show ?thesis using Pair
      by (simp add: convert_rows_def header_keys_of_returns Let_def)
  next
    case (Inr sp)
    show ?thesis
    proof (cases "doc_key_of rows")
      case None
      then have "\<not> truthy (first_in (header_of rows) doc_keys)"
        by (simp add: doc_key_of_def truthy_def)
      then show ?thesis using None Pair Inr w'
        by (simp add: convert_rows_def header_keys_of_returns Let_def split_beta
            single_loop_returns and_then_def)
    next
      case (Some dk)
      have "truthy (first_in (header_of rows) doc_keys) \<longleftrightarrow> first_in (header_of rows) doc_keys \<noteq> None"
        by (rule truthy_first_in) (rule empty_not_alias)
      then have "truthy (first_in (header_of rows) doc_keys)"
        using Some by (simp add: doc_key_of_def)
      then show ?thesis using Some Pair Inr
        by (simp add: convert_rows_def header_keys_of_returns Let_def split_beta
            doc_loop_returns and_then_def doc_key_of_def customer_key_of_def cust_key_of_def)
    qed
  qed
qed

lemma convert_rows_raises:
  "\<not> directory_at_hand w \<Longrightarrow> fst (convert_rows w rows) = Inl OSError"
  by (simp add: convert_rows_result directory_fails)

lemma convert_rows_returns:
  "directory_at_hand w \<Longrightarrow>
   fst (convert_rows w rows) =
     Inr (case doc_key_of rows of
            Some dk \<Rightarrow> doc_lines dk (customer_key_of rows) (cust_key_of rows) (directory_of w) None rows
          | None \<Rightarrow> single_lines (''QO'' @ strftime_mdHM (now w)) rows)"
  by (simp add: convert_rows_result directory_loads)

lemma length_group_starts: "length (group_starts current ds) = length ds"
  by (induction ds arbitrary: current) simp_all

lemma length_doc_lines: "length (doc_lines dk ck uk sp current rows) = length (filter has_sku rows)"
  by (simp add: doc_lines_def Let_def length_group_starts)

lemma length_single_lines: "length (single_lines q rows) = length (filter has_sku rows)"
  by (simp add: single_lines_def split: list.splits)

lemma length_convert_rows:
  "fst (convert_rows w rows) = Inr out \<Longrightarrow> length out = length (filter has_sku rows)"
  by (auto simp: convert_rows_result length_doc_lines length_single_lines
      split: option.splits sum.splits)

section \<open>Header lines and plain lines\<close>

lemma lookup_name_nonempty: "lookup_name sp c \<noteq> []"
  by (simp add: lookup_name_def DEFAULT_SALESPERSON_def split: option.splits)

lemma or_else_default_nonempty: "or_else x DEFAULT_USER \<noteq> []"
  by (simp add: or_else_def DEFAULT_USER_def)

lemma or_else_nonempty: "y \<noteq> [] \<Longrightarrow> or_else x y \<noteq> []"
  by (simp add: or_else_def)

lemma header_line_filled: "header_filled (header_line dk ck uk sp r)"
  by (simp add: header_filled_def HEADER_FIELDS_def header_line_def update_order_line_def
      blank_header_def Let_def lookup_name_nonempty or_else_default_nonempty or_else_nonempty)

lemma quotation_line_filled: "q \<noteq> [] \<Longrightarrow> header_filled (quotation_line q r)"
  by (simp add: header_filled_def HEADER_FIELDS_def quotation_line_def update_order_line_def
      blank_header_def Let_def DEFAULT_USER_def DEFAULT_SALESPERSON_def)

lemma plain_line_blank: "header_blank (plain_line r)"
  by (simp add: header_blank_def HEADER_FIELDS_def plain_line_def update_order_line_def
      blank_header_def Let_def)

lemma filled_not_blank: "header_filled t \<Longrightarrow> \<not> header_blank t"
  by (auto simp: header_filled_def header_blank_def HEADER_FIELDS_def)

lemma plain_line_not_filled: "\<not> header_filled (plain_line r)"
  using filled_not_blank plain_line_blank by blast

lemma header_line_not_blank: "\<not> header_blank (header_line dk ck uk sp r)"
  using filled_not_blank header_line_filled by blast

lemma dom_update_order_line:
  "dom (update_order_line t s d a b) = dom t \<union> set LINE_FIELDS"
  by (auto simp: update_order_line_def Let_def LINE_FIELDS_def)

lemma dom_blank_header: "dom blank_header = set HEADER_FIELDS \<union> {''activity_ids''}"
  by (auto simp: blank_header_def HEADER_FIELDS_def)

lemma template_headers_split:
  "set TEMPLATE_HEADERS = set HEADER_FIELDS \<union> {''activity_ids''} \<union> set LINE_FIELDS"
  by (auto simp: TEMPLATE_HEADERS_def HEADER_FIELDS_def LINE_FIELDS_def)

lemma dom_plain_line: "dom (plain_line r) = set TEMPLATE_HEADERS"
  by (simp add: plain_line_def dom_update_order_line dom_blank_header template_headers_split)

lemma dom_header_line: "dom (header_line dk ck uk sp r) = set TEMPLATE_HEADERS"
proof -
  have "dom (blank_header(''name'' \<mapsto> a, ''partner_id'' \<mapsto> b, ''user_id'' \<mapsto> c,
              ''Cust #'' \<mapsto> d, ''Salesperson'' \<mapsto> e)) = set HEADER_FIELDS \<union> {''activity_ids''}"
    for a b c d e
    by (auto simp: blank_header_def HEADER_FIELDS_def)
  then show ?thesis
    by (simp add: header_line_def dom_update_order_line template_headers_split)
qed

lemma dom_quotation_line: "dom (quotation_line q r) = set TEMPLATE_HEADERS"
proof -
  have "dom (blank_header(''name'' \<mapsto> a, ''partner_id'' \<mapsto> b, ''user_id'' \<mapsto> c,
              ''Cust #'' \<mapsto> d, ''Salesperson'' \<mapsto> e)) = set HEADER_FIELDS \<union> {''activity_ids''}"
    for a b c d e
    by (auto simp: blank_header_def HEADER_FIELDS_def)
  then show ?thesis
    by (simp add: quotation_line_def dom_update_order_line template_headers_split)
qed

lemma line_values:
  "map (update_order_line t s d a b) LINE_FIELDS =
     [Some (''['' @ s @ ''] '' @ d), Some (format_2f a), Some (format_2f b),
      Some (''['' @ s @ ''] '' @ d), Some d, Some (''['' @ s @ ''] '' @ d)]"
  by (simp add: update_order_line_def Let_def LINE_FIELDS_def)

lemma map_filled_lines:
  "map header_filled
     (map (\<lambda>(start, r). if start then header_line dk ck uk sp r else plain_line r)
        (zip (group_starts current (map f rs)) rs)) = group_starts current (map f rs)"
  by (induction rs arbitrary: current) (simp_all add: header_line_filled plain_line_not_filled)

lemma map_filled_doc_lines:
  "map header_filled (doc_lines dk ck uk sp current rows) =
     group_starts current (map (\<lambda>r. field r [dk]) (filter has_sku rows))"
  by (simp only: doc_lines_def Let_def map_filled_lines)

lemma set_doc_lines:
  "t \<in> set (doc_lines dk ck uk sp current rows) \<Longrightarrow>
     \<exists>r \<in> set (filter has_sku rows). t = header_line dk ck uk sp r \<or> t = plain_line r"
  by (auto simp: doc_lines_def Let_def dest!: set_zip_rightD split: if_splits)

lemma set_single_lines:
  "t \<in> set (single_lines q rows) \<Longrightarrow>
     \<exists>r \<in> set (filter has_sku rows). t = quotation_line q r \<or> t = plain_line r"
  by (cases "filter has_sku rows") (auto simp: single_lines_def)

lemma doc_lines_nth:
  assumes "i < length (filter has_sku rows)"
  shows "doc_lines dk ck uk sp current rows ! i =
     (if group_starts current (map (\<lambda>r. field r [dk]) (filter has_sku rows)) ! i
      then header_line dk ck uk sp (filter has_sku rows ! i)
      else plain_line (filter has_sku rows ! i))"
  using assms by (simp add: doc_lines_def Let_def length_group_starts)

lemma doc_lines_nth_filled:
  assumes "i < length (filter has_sku rows)"
    and "header_filled (doc_lines dk ck uk sp current rows ! i)"
  shows "doc_lines dk ck uk sp current rows ! i = header_line dk ck uk sp (filter has_sku rows ! i)"
  using assms plain_line_not_filled by (auto simp: doc_lines_nth split: if_splits)

lemma line_values_doc_lines:
  "map (\<lambda>t. map t LINE_FIELDS) (doc_lines dk ck uk sp current rows) =
     map (\<lambda>r. map (plain_line r) LINE_FIELDS) (filter has_sku rows)"
proof -
  have "map (\<lambda>t. map t LINE_FIELDS)
     (map (\<lambda>(start, r). if start then header_line dk ck uk sp r else plain_line r)
        (zip (group_starts c (map f rs)) rs)) = map (\<lambda>r. map (plain_line r) LINE_FIELDS) rs"
    for c f rs
    by (induction rs arbitrary: c) (simp_all add: header_line_def plain_line_def line_values)
  then show ?thesis by (simp only: doc_lines_def Let_def)
qed

lemma line_values_single_lines:
  "map (\<lambda>t. map t LINE_FIELDS) (single_lines q rows) =
     map (\<lambda>r. map (plain_line r) LINE_FIELDS) (filter has_sku rows)"
  by (cases "filter has_sku rows")
     (simp_all add: single_lines_def quotation_line_def plain_line_def line_values)

lemma first_in_None: "first_in h al = None \<longleftrightarrow> set h \<inter> set al = {}"
  by (auto simp: first_in_def find_None_iff)

lemma header_line_fields:
  "header_line dk ck uk sp r ''name'' = Some (''O'' @ remove_whitespace (field r [dk]))"
  "header_line dk ck uk sp r ''partner_id'' = Some (or_else (opt_field r ck) DEFAULT_USER)"
  "header_line dk ck uk sp r ''user_id'' = Some (lookup_name sp (upper (field r salesperson_keys)))"
  "header_line dk ck uk sp r ''Cust #'' =
     Some (or_else (opt_field r uk) (or_else (opt_field r ck) DEFAULT_USER))"
  "header_line dk ck uk sp r ''Salesperson'' = Some (lookup_name sp (upper (field r salesperson_keys)))"
  by (simp_all add: header_line_def update_order_line_def Let_def)

lemma rows_of_convert_rows:
  assumes "directory_at_hand w" "doc_key_of rows = Some dk"
  shows "\<exists>out. fst (convert_rows w rows) = Inr out \<and> length out = length (filter has_sku rows)
     \<and> (\<forall>i < length out.
           out ! i =
             (if group_starts None (map (\<lambda>r. field r [dk]) (filter has_sku rows)) ! i
              then header_line dk (customer_key_of rows) (cust_key_of rows) (directory_of w)
                     (filter has_sku rows ! i)
              else plain_line (filter has_sku rows ! i)))"
proof -
  let ?out = "doc_lines dk (customer_key_of rows) (cust_key_of rows) (directory_of w) None rows"
  have "fst (convert_rows w rows) = Inr ?out"
    using assms by (simp add: convert_rows_returns)
  moreover have "length ?out = length (filter has_sku rows)"
    by (rule length_doc_lines)
  moreover have "\<forall>i < length ?out.
           ?out ! i =
             (if group_starts None (map (\<lambda>r. field r [dk]) (filter has_sku rows)) ! i
              then header_line dk (customer_key_of rows) (cust_key_of rows) (directory_of w)
                     (filter has_sku rows ! i)
              else plain_line (filter has_sku rows ! i))"
    by (simp add: length_doc_lines doc_lines_nth)
  ultimately show ?thesis by (intro exI [of _ ?out] conjI)
qed

lemma plain_line_fields:
  "plain_line r ''name'' = Some []" "plain_line r ''partner_id'' = Some []"
  "plain_line r ''user_id'' = Some []" "plain_line r ''Cust #'' = Some []"
  "plain_line r ''Salesperson'' = Some []"
  by (simp_all add: plain_line_def update_order_line_def blank_header_def Let_def)

lemma opt_field_first_in:
  assumes "[] \<notin> set al"
  shows "opt_field r (first_in h al) = (case first_in h al of None \<Rightarrow> [] | Some k \<Rightarrow> field r [k])"
proof (cases "first_in h al")
  case None
  then show ?thesis by (simp add: opt_field_def truthy_def)
next
  case (Some k)
  then have "truthy (first_in h al)" using truthy_first_in [OF assms, of h] by simp
  then show ?thesis using Some by (simp add: opt_field_def)
qed

lemma field_find:
  "field r ks =
     (case find (\<lambda>a. dict_get r a \<noteq> None) ks of
        None \<Rightarrow> []
      | Some a \<Rightarrow> (case dict_get r a of Some text \<Rightarrow> strip text | None \<Rightarrow> []))"
proof (induction ks)
  case Nil
  then show ?case by (simp add: field_Nil)
next
  case (Cons k ks)
  show ?case
  proof (cases "map_of r k")
    case None
    then show ?thesis using Cons by (simp add: field_Cons dict_get_def)
  next
    case (Some v)
    then show ?thesis using Cons by (cases v) (simp_all add: field_Cons dict_get_def)
  qed
qed

lemma column_doc_lines_label:
  "column ''order_line/name'' (Inr (doc_lines dk ck uk sp current rows)) =
     map (\<lambda>r. Some (''['' @ field r sku_keys @ ''] '' @ field r desc_keys)) (filter has_sku rows)"
proof -
  have "map (\<lambda>t. t ''order_line/name'')
     (map (\<lambda>(start, r). if start then header_line dk ck uk sp r else plain_line r)
        (zip (group_starts c (map f rs)) rs))
      = map (\<lambda>r. Some (''['' @ field r sku_keys @ ''] '' @ field r desc_keys)) rs"
    for c f rs
    by (induction rs arbitrary: c)
       (simp_all add: header_line_def plain_line_def update_order_line_def Let_def)
  then show ?thesis by (simp only: column_def sum.case doc_lines_def Let_def)
qed

lemma column_single_lines_label:
  "column ''order_line/name'' (Inr (single_lines q rows)) =
     map (\<lambda>r. Some (''['' @ field r sku_keys @ ''] '' @ field r desc_keys)) (filter has_sku rows)"
  by (cases "filter has_sku rows")
     (simp_all add: column_def single_lines_def quotation_line_def plain_line_def
        update_order_line_def Let_def)

section \<open>How the columns are resolved\<close>

lemma first_in_position:
  assumes "first_in h al = Some k"
  shows "k \<in> set al \<and> (\<exists>i < length h. h ! i = k \<and> (\<forall>j < i. h ! j \<notin> set al))"
proof -
  from assms obtain i where "i < length h" "h ! i \<in> set al" "k = h ! i" "\<forall>j < i. h ! j \<notin> set al"
    unfolding first_in_def find_Some_iff by blast
  then show ?thesis by auto
qed

lemma spec_resolve_Some: "spec_resolve al h = Some a \<Longrightarrow> a \<in> set al \<and> a \<in> set h"
  by (auto simp: spec_resolve_def find_Some_iff)

lemma spec_resolve_None: "spec_resolve al h = None \<longleftrightarrow> set h \<inter> set al = {}"
  by (auto simp: spec_resolve_def find_None_iff)

lemma first_in_spec_resolve:
  assumes "\<forall>a \<in> set al. \<forall>b \<in> set al. a \<in> set h \<and> b \<in> set h \<longrightarrow> a = b"
  shows "first_in h al = spec_resolve al h"
proof (cases "first_in h al")
  case None
  then have "set h \<inter> set al = {}" by (simp add: first_in_None)
  then have "spec_resolve al h = None" by (simp add: spec_resolve_None)
  then show ?thesis using None by simp
next
  case (Some k)
  then have k: "k \<in> set al" "k \<in> set h" using first_in_Some by blast+
  then have "spec_resolve al h \<noteq> None" by (auto simp: spec_resolve_None)
  then obtain a where a: "spec_resolve al h = Some a" by auto
  then have "a \<in> set al \<and> a \<in> set h" by (rule spec_resolve_Some)
  then have "a = k" using assms k by blast
  then show ?thesis using Some a by simp
qed

lemma priority_example:
  "spec_resolve doc_keys (header_of [[(''Doc'', Some ''7''), (''Doc #'', Some ''9''), (''SKU'', Some ''X1'')]])
     = Some ''Doc #''"
  "doc_key_of [[(''Doc'', Some ''7''), (''Doc #'', Some ''9''), (''SKU'', Some ''X1'')]] = Some ''Doc''"
  "filter has_sku [[(''Doc'', Some ''7''), (''Doc #'', Some ''9''), (''SKU'', Some ''X1'')]]
     = [[(''Doc'', Some ''7''), (''Doc #'', Some ''9''), (''SKU'', Some ''X1'')]]"
  "field [(''Doc'', Some ''7''), (''Doc #'', Some ''9''), (''SKU'', Some ''X1'')] [''Doc''] = ''7''"
  by (simp_all add: spec_resolve_def doc_key_of_def first_in_def header_of_def keys_def doc_keys_def
      has_sku_def field_Cons field_Nil sku_keys_def strip_def strip_left.simps leading_space_def SPACES_def)

lemma per_row_example:
  "spec_resolve sku_keys
     (header_of [[(''Item'', Some ''A''), (''Doc #'', Some ''1''), (''SKU'', Some ''B'')],
                 [(''Item'', Some ''C''), (''Doc #'', Some ''1''), (''SKU'', None)]]) = Some ''SKU''"
  "dict_get [(''Item'', Some ''C''), (''Doc #'', Some ''1''), (''SKU'', None)] ''SKU'' = None"
  "doc_key_of [[(''Item'', Some ''A''), (''Doc #'', Some ''1''), (''SKU'', Some ''B'')],
               [(''Item'', Some ''C''), (''Doc #'', Some ''1''), (''SKU'', None)]] = Some ''Doc #''"
  "filter has_sku [[(''Item'', Some ''A''), (''Doc #'', Some ''1''), (''SKU'', Some ''B'')],
                   [(''Item'', Some ''C''), (''Doc #'', Some ''1''), (''SKU'', None)]]
     = [[(''Item'', Some ''A''), (''Doc #'', Some ''1''), (''SKU'', Some ''B'')],
        [(''Item'', Some ''C''), (''Doc #'', Some ''1''), (''SKU'', None)]]"
  "field [(''Item'', Some ''A''), (''Doc #'', Some ''1''), (''SKU'', Some ''B'')] sku_keys = ''B''"
  "field [(''Item'', Some ''C''), (''Doc #'', Some ''1''), (''SKU'', None)] sku_keys = ''C''"
  "field [(''Item'', Some ''A''), (''Doc #'', Some ''1''), (''SKU'', Some ''B'')] desc_keys = []"
  "field [(''Item'', Some ''C''), (''Doc #'', Some ''1''), (''SKU'', None)] desc_keys = []"
  by (simp_all add: spec_resolve_def doc_key_of_def first_in_def header_of_def keys_def doc_keys_def
      dict_get_def has_sku_def field_Cons field_Nil sku_keys_def desc_keys_def strip_def strip_left.simps leading_space_def SPACES_def)

lemma column_doc_lines_name:
  "column ''name'' (Inr (doc_lines dk ck uk sp None [r])) =
     (if has_sku r then [if opens None (field r [dk]) then Some (''O'' @ remove_whitespace (field r [dk])) else Some []]
      else [])"
  by (simp add: column_def doc_lines_def Let_def header_line_fields plain_line_def
      update_order_line_def blank_header_def)

text \<open>
  C1, as the specification states it, fails on the code in two ways. First, the
  document-number column is not the first alias of the priority list that the header holds:
  with the header \<open>Doc, Doc #, SKU\<close> the priority scan gives \<open>Doc #\<close>, the code takes
  \<open>Doc\<close>, and the order is named \<open>O7\<close> after that column. Second, the SKU is not read
  through a column fixed by the header of the first row: with the header \<open>Item, Doc #, SKU\<close>
  the priority scan gives \<open>SKU\<close>, yet a row whose \<open>SKU\<close> is \<open>None\<close> is read through
  \<open>Item\<close> and converted.
\<close>

theorem C1_counterexample:
  "spec_resolve doc_keys (header_of [[(''Doc'', Some ''7''), (''Doc #'', Some ''9''), (''SKU'', Some ''X1'')]])
     = Some ''Doc #''
   \<and> doc_key_of [[(''Doc'', Some ''7''), (''Doc #'', Some ''9''), (''SKU'', Some ''X1'')]] = Some ''Doc''
   \<and> doc_key_of [[(''Doc'', Some ''7''), (''Doc #'', Some ''9''), (''SKU'', Some ''X1'')]]
       \<noteq> spec_resolve doc_keys (header_of [[(''Doc'', Some ''7''), (''Doc #'', Some ''9''), (''SKU'', Some ''X1'')]])
   \<and> column ''name''
        (fst (convert_rows
           \<lparr>salesperson_cache = None, directory = Absent,
            now = \<lparr>month = 11, day = 4, hour = 9, minute = 30\<rparr>\<rparr>
           [[(''Doc'', Some ''7''), (''Doc #'', Some ''9''), (''SKU'', Some ''X1'')]])) = [Some ''O7'']
   \<and> spec_resolve sku_keys
        (header_of [[(''Item'', Some ''A''), (''Doc #'', Some ''1''), (''SKU'', Some ''B'')],
                    [(''Item'', Some ''C''), (''Doc #'', Some ''1''), (''SKU'', None)]]) = Some ''SKU''
   \<and> dict_get [(''Item'', Some ''C''), (''Doc #'', Some ''1''), (''SKU'', None)] ''SKU'' = None
   \<and> column ''order_line/name''
        (fst (convert_rows
           \<lparr>salesperson_cache = None, directory = Absent,
            now = \<lparr>month = 11, day = 4, hour = 9, minute = 30\<rparr>\<rparr>
           [[(''Item'', Some ''A''), (''Doc #'', Some ''1''), (''SKU'', Some ''B'')],
            [(''Item'', Some ''C''), (''Doc #'', Some ''1''), (''SKU'', None)]]))
       = [Some ''[B] '', Some ''[C] '']"
proof -
  let ?w = "\<lparr>salesperson_cache = None, directory = Absent,
            now = \<lparr>month = 11, day = 4, hour = 9, minute = 30\<rparr>\<rparr>"
  let ?r = "[(''Doc'', Some ''7''), (''Doc #'', Some ''9''), (''SKU'', Some ''X1'')]"
  let ?rows = "[[(''Item'', Some ''A''), (''Doc #'', Some ''1''), (''SKU'', Some ''B'')],
            [(''Item'', Some ''C''), (''Doc #'', Some ''1''), (''SKU'', None)]]"
  have differ: "doc_key_of [?r] \<noteq> spec_resolve doc_keys (header_of [?r])"
    by (simp only: priority_example) simp
  have sku: "has_sku ?r" using priority_example(3) by (simp split: if_splits)
  have "column ''name'' (fst (convert_rows ?w [?r])) =
      [if opens None ''7'' then Some (''O'' @ remove_whitespace ''7'') else Some []]"
    by (simp only: convert_rows_returns [OF at_hand_examples(1)] priority_example(2) option.case
        column_doc_lines_name sku if_True priority_example(4))
  then have name: "column ''name'' (fst (convert_rows ?w [?r])) = [Some ''O7'']"
    by (simp add: opens_def remove_whitespace.simps leading_space_def SPACES_def)
  have "column ''order_line/name'' (fst (convert_rows ?w ?rows)) =
      map (\<lambda>r. Some (''['' @ field r sku_keys @ ''] '' @ field r desc_keys)) ?rows"
    by (simp only: convert_rows_returns [OF at_hand_examples(1)] per_row_example(3,4) option.case
        column_doc_lines_label)
  then have label: "column ''order_line/name'' (fst (convert_rows ?w ?rows)) = [Some ''[B] '', Some ''[C] '']"
    by (simp add: per_row_example)
  from priority_example(1,2) differ name per_row_example(1,2) label show ?thesis
    by (intro conjI)
qed

text \<open>
  C1, amended. The document-number, customer and customer-code columns are resolved once
  for the file: the keys of the first row are scanned in their own order and the first key
  that is one of the field's aliases is taken, none when the row has no such key; this is
  the alias the priority scan takes whenever the header holds at most one alias of the
  field. Every other field is read row by row: its alias list is scanned in priority order
  and the first alias under which the row holds a text, not \<open>None\<close>, gives the field, trimmed.
  A field none of whose aliases matches reads as the empty text, without an error, and a
  file without a document-number column is converted as one order. The conversion returns
  when the salesperson directory is at hand, that is in the cache, or its file absent or
  readable; otherwise the error of reading the file leaves it.
\<close>

theorem C1_alias_resolution:
  "(first_in h al = None \<longleftrightarrow> set h \<inter> set al = {})
   \<and> (\<forall>k. first_in h al = Some k \<longrightarrow>
          k \<in> set al \<and> (\<exists>i < length h. h ! i = k \<and> (\<forall>j < i. h ! j \<notin> set al)))
   \<and> ((\<forall>a \<in> set al. \<forall>b \<in> set al. a \<in> set h \<and> b \<in> set h \<longrightarrow> a = b)
        \<longrightarrow> first_in h al = spec_resolve al h)
   \<and> get_val r ks =
        Inr (case find (\<lambda>a. dict_get r a \<noteq> None) ks of
               None \<Rightarrow> []
             | Some a \<Rightarrow> (case dict_get r a of Some text \<Rightarrow> strip text | None \<Rightarrow> []))
   \<and> ((\<forall>a \<in> set ks. dict_get r a = None) \<longrightarrow> get_val r ks = Inr [])
   \<and> (directory_at_hand w \<longrightarrow>
        fst (convert_rows w rows) =
          Inr (case first_in (header_of rows) doc_keys of
                 Some dk \<Rightarrow> doc_lines dk (first_in (header_of rows) customer_keys)
                               (first_in (header_of rows) cust_keys) (directory_of w) None rows
               | None \<Rightarrow> single_lines (''QO'' @ strftime_mdHM (now w)) rows))
   \<and> (\<not> directory_at_hand w \<longrightarrow> fst (convert_rows w rows) = Inl OSError)"
proof -
  have position: "\<forall>k. first_in h al = Some k \<longrightarrow>
          k \<in> set al \<and> (\<exists>i < length h. h ! i = k \<and> (\<forall>j < i. h ! j \<notin> set al))"
    using first_in_position by blast
  have agree: "(\<forall>a \<in> set al. \<forall>b \<in> set al. a \<in> set h \<and> b \<in> set h \<longrightarrow> a = b)
        \<longrightarrow> first_in h al = spec_resolve al h"
    using first_in_spec_resolve by blast
  have read: "get_val r ks =
        Inr (case find (\<lambda>a. dict_get r a \<noteq> None) ks of
               None \<Rightarrow> []
             | Some a \<Rightarrow> (case dict_get r a of Some text \<Rightarrow> strip text | None \<Rightarrow> []))"
    by (simp only: get_val_field field_find [symmetric])
  have "(\<forall>a \<in> set ks. dict_get r a = None) \<longrightarrow> find (\<lambda>a. dict_get r a \<noteq> None) ks = None"
    by (simp add: find_None_iff)
  then have missing: "(\<forall>a \<in> set ks. dict_get r a = None) \<longrightarrow> get_val r ks = Inr []"
    by (simp add: read)
  have conv: "directory_at_hand w \<longrightarrow>
        fst (convert_rows w rows) =
          Inr (case first_in (header_of rows) doc_keys of
                 Some dk \<Rightarrow> doc_lines dk (first_in (header_of rows) customer_keys)
                               (first_in (header_of rows) cust_keys) (directory_of w) None rows
               | None \<Rightarrow> single_lines (''QO'' @ strftime_mdHM (now w)) rows)"
    by (rule impI) (simp only: convert_rows_returns doc_key_of_def customer_key_of_def cust_key_of_def)
  have raises: "\<not> directory_at_hand w \<longrightarrow> fst (convert_rows w rows) = Inl OSError"
    by (rule impI) (rule convert_rows_raises)
  from first_in_None [of h al] position agree read missing conv raises show ?thesis
    by (intro conjI)
qed

theorem C1_alias_resolution_witness:
  "first_in [''SKU'', ''Doc No'', ''Qty''] doc_keys = Some ''Doc No''
   \<and> spec_resolve doc_keys [''SKU'', ''Doc No'', ''Qty''] = Some ''Doc No''
   \<and> ''Doc No'' \<in> set doc_keys
   \<and> (\<exists>i. i < length [''SKU'', ''Doc No'', ''Qty''] \<and> [''SKU'', ''Doc No'', ''Qty''] ! i = ''Doc No'')
   \<and> get_val [(''SKU'', Some ''X1''), (''Qty'', None)] qty_keys = Inr []
   \<and> get_val [(''SKU'', Some ''X1''), (''Qty'', None)] price_keys = Inr []
   \<and> fst (convert_rows
             \<lparr>salesperson_cache = None, directory = Absent,
              now = \<lparr>month = 11, day = 4, hour = 9, minute = 30\<rparr>\<rparr> []) = Inr []
   \<and> fst (convert_rows
             \<lparr>salesperson_cache = None, directory = Unreadable,
              now = \<lparr>month = 11, day = 4, hour = 9, minute = 30\<rparr>\<rparr> []) = Inl OSError"
proof -
  let ?h = "[''SKU'', ''Doc No'', ''Qty'']"
  let ?r = "[(''SKU'', Some ''X1''), (''Qty'', None)]"
  let ?w = "\<lparr>salesperson_cache = None, directory = Absent,
              now = \<lparr>month = 11, day = 4, hour = 9, minute = 30\<rparr>\<rparr>"
  let ?u = "\<lparr>salesperson_cache = None, directory = Unreadable,
              now = \<lparr>month = 11, day = 4, hour = 9, minute = 30\<rparr>\<rparr>"
  have "directory_at_hand ?w \<longrightarrow>
        fst (convert_rows ?w []) =
          Inr (case first_in (header_of []) doc_keys of
                 Some dk \<Rightarrow> doc_lines dk (first_in (header_of []) customer_keys)
                               (first_in (header_of []) cust_keys) (directory_of ?w) None []
               | None \<Rightarrow> single_lines (''QO'' @ strftime_mdHM (now ?w)) [])"
    by (rule conjunct1 [OF conjunct2 [OF conjunct2 [OF conjunct2 [OF conjunct2 [OF conjunct2
        [OF C1_alias_resolution [where w = ?w and rows = "[]"]]]]]]])
  then have returns: "fst (convert_rows ?w []) = Inr []"
    by (simp add: at_hand_examples header_of_def first_in_def single_lines_def)
  have "\<not> directory_at_hand ?u \<longrightarrow> fst (convert_rows ?u []) = Inl OSError"
    by (rule conjunct2 [OF conjunct2 [OF conjunct2 [OF conjunct2 [OF conjunct2 [OF conjunct2
        [OF C1_alias_resolution [where w = ?u and rows = "[]"]]]]]]])
  then have raises: "fst (convert_rows ?u []) = Inl OSError"
    by (simp add: directory_at_hand_def)
  note c1 = C1_alias_resolution [where h = ?h and al = doc_keys and r = ?r]
  have one: "\<forall>a \<in> set doc_keys. \<forall>b \<in> set doc_keys. a \<in> set ?h \<and> b \<in> set ?h \<longrightarrow> a = b"
    by (simp add: doc_keys_def)
  have spec: "spec_resolve doc_keys ?h = Some ''Doc No''"
    by (simp add: spec_resolve_def doc_keys_def)
  have "(\<forall>a \<in> set doc_keys. \<forall>b \<in> set doc_keys. a \<in> set ?h \<and> b \<in> set ?h \<longrightarrow> a = b)
        \<longrightarrow> first_in ?h doc_keys = spec_resolve doc_keys ?h"
    by (rule conjunct1 [OF conjunct2 [OF conjunct2 [OF c1]]])
  then have code: "first_in ?h doc_keys = Some ''Doc No''"
    using one spec by simp
  have none_q: "\<forall>a \<in> set qty_keys. dict_get ?r a = None"
    by (simp add: qty_keys_def dict_get_def)
  have none_p: "\<forall>a \<in> set price_keys. dict_get ?r a = None"
    by (simp add: price_keys_def dict_get_def)
  have "(\<forall>a \<in> set qty_keys. dict_get ?r a = None) \<longrightarrow> get_val ?r qty_keys = Inr []"
    by (rule conjunct1 [OF conjunct2 [OF conjunct2 [OF conjunct2 [OF conjunct2
        [OF C1_alias_resolution [where r = ?r and ks = qty_keys]]]]]])
  then have q: "get_val ?r qty_keys = Inr []" using none_q by simp
  have "(\<forall>a \<in> set price_keys. dict_get ?r a = None) \<longrightarrow> get_val ?r price_keys = Inr []"
    by (rule conjunct1 [OF conjunct2 [OF conjunct2 [OF conjunct2 [OF conjunct2
        [OF C1_alias_resolution [where r = ?r and ks = price_keys]]]]]])
  then have p: "get_val ?r price_keys = Inr []" using none_p by simp
  have "\<forall>k. first_in ?h doc_keys = Some k \<longrightarrow>
          k \<in> set doc_keys \<and> (\<exists>i < length ?h. ?h ! i = k \<and> (\<forall>j < i. ?h ! j \<notin> set doc_keys))"
    by (rule conjunct1 [OF conjunct2 [OF c1]])
  then have "''Doc No'' \<in> set doc_keys
      \<and> (\<exists>i < length ?h. ?h ! i = ''Doc No'' \<and> (\<forall>j < i. ?h ! j \<notin> set doc_keys))"
    using code by blast
  then have place: "''Doc No'' \<in> set doc_keys" "\<exists>i. i < length ?h \<and> ?h ! i = ''Doc No''"
    by blast+
  from code spec place q p returns raises show ?thesis by (intro conjI)
qed

lemma py_float_abc: "py_float (remove_commas ''abc'') = Inl ValueError"
  by code_simp

text \<open>
  C8, as the specification states it, fails on the code. \<open>convert_rows\<close> fetches the
  salesperson directory before it looks at a row, and the loader catches nothing but the
  \<open>UnicodeDecodeError\<close> of the first reading: when the directory is not in the cache and
  its file is there but cannot be opened or read, the error of the operating system leaves
  \<open>convert_rows\<close>, on the empty list and on a well-formed row alike.
\<close>

theorem C8_counterexample:
  "fst (convert_rows
          \<lparr>salesperson_cache = None, directory = Unreadable,
           now = \<lparr>month = 11, day = 4, hour = 9, minute = 30\<rparr>\<rparr> []) = Inl OSError
   \<and> fst (convert_rows
          \<lparr>salesperson_cache = None, directory = Unreadable,
           now = \<lparr>month = 11, day = 4, hour = 9, minute = 30\<rparr>\<rparr>
          [[(''Doc #'', Some ''1''), (''SKU'', Some ''X1''), (''Qty'', Some ''2'')]]) = Inl OSError"
  by (simp add: convert_rows_raises directory_at_hand_def)

text \<open>
  C8, amended. When the salesperson directory is at hand, that is in the cache, or its file
  absent or readable, \<open>convert_rows\<close> returns a list of TemplateRows for every list of rows,
  the empty list included, and raises nothing. Reading a field never raises, whatever columns
  the row has or lacks, and neither does the look at the first row's keys; the \<open>ValueError\<close>
  of \<open>float\<close> on a malformed number is caught where it arises and replaced by zero, so it
  never reaches the caller. When the directory is not at hand, the error of reading its file
  leaves \<open>convert_rows\<close> whatever the rows are.
\<close>

theorem C8_convert_rows_total:
  "(directory_at_hand w \<longrightarrow> (\<exists>out. fst (convert_rows w rows) = Inr out))
   \<and> (directory_at_hand w \<longrightarrow> fst (convert_rows w []) = Inr [])
   \<and> (\<not> directory_at_hand w \<longrightarrow> fst (convert_rows w rows) = Inl OSError)
   \<and> (directory_at_hand w \<longleftrightarrow> salesperson_cache w \<noteq> None \<or> directory w \<noteq> Unreadable)
   \<and> (\<exists>v. get_val r ks = Inr v)
   \<and> (\<exists>h. header_keys_of rows = Inr h)
   \<and> (\<forall>e. py_float (remove_commas text) = Inl e \<longrightarrow> parse_number text = zero)"
proof -
  have returns: "directory_at_hand w \<longrightarrow> (\<exists>out. fst (convert_rows w rows) = Inr out)"
    by (simp add: convert_rows_returns)
  have empty: "directory_at_hand w \<longrightarrow> fst (convert_rows w []) = Inr []"
    by (simp add: convert_rows_returns doc_key_of_def header_of_def first_in_def single_lines_def)
  have raises: "\<not> directory_at_hand w \<longrightarrow> fst (convert_rows w rows) = Inl OSError"
    by (simp add: convert_rows_raises)
  have at_hand: "directory_at_hand w \<longleftrightarrow> salesperson_cache w \<noteq> None \<or> directory w \<noteq> Unreadable"
    by (simp add: directory_at_hand_def split: option.splits)
  have read: "\<exists>v. get_val r ks = Inr v" by (rule get_val_returns)
  have header: "\<exists>h. header_keys_of rows = Inr h" by (simp add: header_keys_of_returns)
  have caught: "\<forall>e. py_float (remove_commas text) = Inl e \<longrightarrow> parse_number text = zero"
    by (auto simp: parse_number_def)
  from returns empty raises at_hand read header caught show ?thesis by (intro conjI)
qed

theorem C8_convert_rows_total_witness:
  "py_float (remove_commas ''abc'') = Inl ValueError
   \<and> parse_number ''abc'' = zero
   \<and> (\<exists>out. fst (convert_rows \<lparr>salesperson_cache = None, directory = Absent,
                                  now = \<lparr>month = 1, day = 2, hour = 3, minute = 4\<rparr>\<rparr>
                       [[(''SKU'', Some ''X1''), (''Qty'', Some ''abc'')], [(''Doc #'', None)]]) = Inr out)
   \<and> fst (convert_rows \<lparr>salesperson_cache = None, directory = Absent,
                         now = \<lparr>month = 1, day = 2, hour = 3, minute = 4\<rparr>\<rparr> []) = Inr []
   \<and> fst (convert_rows \<lparr>salesperson_cache = None, directory = Unreadable,
                         now = \<lparr>month = 1, day = 2, hour = 3, minute = 4\<rparr>\<rparr>
             [[(''SKU'', Some ''X1''), (''Qty'', Some ''abc'')], [(''Doc #'', None)]]) = Inl OSError"
proof -
  let ?w = "\<lparr>salesperson_cache = None, directory = Absent,
             now = \<lparr>month = 1, day = 2, hour = 3, minute = 4\<rparr>\<rparr>"
  let ?u = "\<lparr>salesperson_cache = None, directory = Unreadable,
             now = \<lparr>month = 1, day = 2, hour = 3, minute = 4\<rparr>\<rparr>"
  let ?rows = "[[(''SKU'', Some ''X1''), (''Qty'', Some ''abc'')], [(''Doc #'', None)]]"
  note at_w = C8_convert_rows_total [of ?w ?rows _ _ "''abc''"]
  note at_u = C8_convert_rows_total [where w = ?u and rows = ?rows]
  have w: "directory_at_hand ?w" and u: "\<not> directory_at_hand ?u"
    by (simp_all add: directory_at_hand_def)
  have "\<forall>e. py_float (remove_commas ''abc'') = Inl e \<longrightarrow> parse_number ''abc'' = zero"
    by (rule conjunct2 [OF conjunct2 [OF conjunct2 [OF conjunct2 [OF conjunct2 [OF conjunct2 [OF at_w]]]]]])
  then have zero: "parse_number ''abc'' = zero" using py_float_abc by simp
  have "directory_at_hand ?w \<longrightarrow> (\<exists>out. fst (convert_rows ?w ?rows) = Inr out)"
    by (rule conjunct1 [OF at_w])
  then have returns: "\<exists>out. fst (convert_rows ?w ?rows) = Inr out" using w by simp
  have "directory_at_hand ?w \<longrightarrow> fst (convert_rows ?w []) = Inr []"
    by (rule conjunct1 [OF conjunct2 [OF at_w]])
  then have empty: "fst (convert_rows ?w []) = Inr []" using w by simp
  have "\<not> directory_at_hand ?u \<longrightarrow> fst (convert_rows ?u ?rows) = Inl OSError"
    by (rule conjunct1 [OF conjunct2 [OF conjunct2 [OF at_u]]])
  then have raises: "fst (convert_rows ?u ?rows) = Inl OSError" using u by simp
  from py_float_abc zero returns empty raises show ?thesis by (intro conjI)
qed

section \<open>Rows without a SKU\<close>

lemma has_sku_get_val: "has_sku r \<longleftrightarrow> get_val r sku_keys \<noteq> Inr []"
  by (simp add: has_sku_def get_val_field)

lemma has_sku_find:
  "has_sku r \<longleftrightarrow>
     (case find (\<lambda>a. dict_get r a \<noteq> None) sku_keys of
        None \<Rightarrow> False
      | Some a \<Rightarrow> (case dict_get r a of Some text \<Rightarrow> strip text \<noteq> [] | None \<Rightarrow> False))"
  by (simp add: has_sku_def field_find split: option.splits)

lemma doc_key_of_Cons: "doc_key_of (r # rs) = doc_key_of (r # rs')"
  and customer_key_of_Cons: "customer_key_of (r # rs) = customer_key_of (r # rs')"
  and cust_key_of_Cons: "cust_key_of (r # rs) = cust_key_of (r # rs')"
  by (simp_all add: doc_key_of_def customer_key_of_def cust_key_of_def header_of_def)

lemma doc_lines_filter:
  "filter has_sku rows = filter has_sku rows' \<Longrightarrow>
   doc_lines dk ck uk sp current rows = doc_lines dk ck uk sp current rows'"
  by (simp add: doc_lines_def)

lemma single_lines_filter:
  "filter has_sku rows = filter has_sku rows' \<Longrightarrow> single_lines q rows = single_lines q rows'"
  by (simp add: single_lines_def)

lemma sku_none_doc_example:
  "spec_resolve sku_keys
     (header_of [[(''Item'', Some ''P-100''), (''Doc #'', Some ''5''), (''SKU'', Some ''S-1'')],
                 [(''Item'', Some ''P-200''), (''Doc #'', Some ''5''), (''SKU'', None)]]) = Some ''SKU''"
  "dict_get [(''Item'', Some ''P-200''), (''Doc #'', Some ''5''), (''SKU'', None)] ''SKU'' = None"
  "doc_key_of [[(''Item'', Some ''P-100''), (''Doc #'', Some ''5''), (''SKU'', Some ''S-1'')],
               [(''Item'', Some ''P-200''), (''Doc #'', Some ''5''), (''SKU'', None)]] = Some ''Doc #''"
  "filter has_sku [[(''Item'', Some ''P-100''), (''Doc #'', Some ''5''), (''SKU'', Some ''S-1'')],
                   [(''Item'', Some ''P-200''), (''Doc #'', Some ''5''), (''SKU'', None)]]
     = [[(''Item'', Some ''P-100''), (''Doc #'', Some ''5''), (''SKU'', Some ''S-1'')],
        [(''Item'', Some ''P-200''), (''Doc #'', Some ''5''), (''SKU'', None)]]"
  "field [(''Item'', Some ''P-100''), (''Doc #'', Some ''5''), (''SKU'', Some ''S-1'')] sku_keys = ''S-1''"
  "field [(''Item'', Some ''P-200''), (''Doc #'', Some ''5''), (''SKU'', None)] sku_keys = ''P-200''"
  "field [(''Item'', Some ''P-100''), (''Doc #'', Some ''5''), (''SKU'', Some ''S-1'')] desc_keys = []"
  "field [(''Item'', Some ''P-200''), (''Doc #'', Some ''5''), (''SKU'', None)] desc_keys = []"
  by (simp_all add: spec_resolve_def doc_key_of_def first_in_def header_of_def keys_def doc_keys_def
      dict_get_def has_sku_def field_Cons field_Nil sku_keys_def desc_keys_def strip_def
      strip_left.simps leading_space_def SPACES_def)

lemma sku_none_single_example:
  "spec_resolve sku_keys
     (header_of [[(''Item'', Some ''P-100''), (''SKU'', Some ''S-1'')],
                 [(''Item'', Some ''P-200''), (''SKU'', None)]]) = Some ''SKU''"
  "dict_get [(''Item'', Some ''P-200''), (''SKU'', None)] ''SKU'' = None"
  "doc_key_of [[(''Item'', Some ''P-100''), (''SKU'', Some ''S-1'')],
               [(''Item'', Some ''P-200''), (''SKU'', None)]] = None"
  "filter has_sku [[(''Item'', Some ''P-100''), (''SKU'', Some ''S-1'')],
                   [(''Item'', Some ''P-200''), (''SKU'', None)]]
     = [[(''Item'', Some ''P-100''), (''SKU'', Some ''S-1'')],
        [(''Item'', Some ''P-200''), (''SKU'', None)]]"
  "field [(''Item'', Some ''P-100''), (''SKU'', Some ''S-1'')] sku_keys = ''S-1''"
  "field [(''Item'', Some ''P-200''), (''SKU'', None)] sku_keys = ''P-200''"
  "field [(''Item'', Some ''P-100''), (''SKU'', Some ''S-1'')] desc_keys = []"
  "field [(''Item'', Some ''P-200''), (''SKU'', None)] desc_keys = []"
  by (simp_all add: spec_resolve_def doc_key_of_def first_in_def header_of_def keys_def doc_keys_def
      dict_get_def has_sku_def field_Cons field_Nil sku_keys_def desc_keys_def strip_def
      strip_left.simps leading_space_def SPACES_def)

text \<open>
  C4, as the specification states it, fails on the code, in either mode. The specification
  resolves the SKU column once for the file, by the priority scan of the header: with the
  header \<open>Item, Doc #, SKU\<close>, or \<open>Item, SKU\<close>, that column is \<open>SKU\<close>. A second row that
  is shorter than the header holds \<open>None\<close> there, so its resolved SKU field is absent and
  one input row only has a non-empty SKU; yet the code reads the SKU of that row through the
  alias \<open>Item\<close> and returns two TemplateRows, more than the number of rows with a non-empty
  SKU under the resolved column.
\<close>

theorem C4_counterexample:
  "spec_resolve sku_keys
     (header_of [[(''Item'', Some ''P-100''), (''Doc #'', Some ''5''), (''SKU'', Some ''S-1'')],
                 [(''Item'', Some ''P-200''), (''Doc #'', Some ''5''), (''SKU'', None)]]) = Some ''SKU''
   \<and> dict_get [(''Item'', Some ''P-200''), (''Doc #'', Some ''5''), (''SKU'', None)] ''SKU'' = None
   \<and> filter (spec_has_sku [[(''Item'', Some ''P-100''), (''Doc #'', Some ''5''), (''SKU'', Some ''S-1'')],
                            [(''Item'', Some ''P-200''), (''Doc #'', Some ''5''), (''SKU'', None)]])
        [[(''Item'', Some ''P-100''), (''Doc #'', Some ''5''), (''SKU'', Some ''S-1'')],
         [(''Item'', Some ''P-200''), (''Doc #'', Some ''5''), (''SKU'', None)]]
       = [[(''Item'', Some ''P-100''), (''Doc #'', Some ''5''), (''SKU'', Some ''S-1'')]]
   \<and> column ''order_line/name''
        (fst (convert_rows
           \<lparr>salesperson_cache = None, directory = Absent,
            now = \<lparr>month = 11, day = 4, hour = 9, minute = 30\<rparr>\<rparr>
           [[(''Item'', Some ''P-100''), (''Doc #'', Some ''5''), (''SKU'', Some ''S-1'')],
            [(''Item'', Some ''P-200''), (''Doc #'', Some ''5''), (''SKU'', None)]]))
       = [Some ''[S-1] '', Some ''[P-200] '']
   \<and> spec_resolve sku_keys
        (header_of [[(''Item'', Some ''P-100''), (''SKU'', Some ''S-1'')],
                    [(''Item'', Some ''P-200''), (''SKU'', None)]]) = Some ''SKU''
   \<and> filter (spec_has_sku [[(''Item'', Some ''P-100''), (''SKU'', Some ''S-1'')],
                            [(''Item'', Some ''P-200''), (''SKU'', None)]])
        [[(''Item'', Some ''P-100''), (''SKU'', Some ''S-1'')],
         [(''Item'', Some ''P-200''), (''SKU'', None)]]
       = [[(''Item'', Some ''P-100''), (''SKU'', Some ''S-1'')]]
   \<and> column ''order_line/name''
        (fst (convert_rows
           \<lparr>salesperson_cache = None, directory = Absent,
            now = \<lparr>month = 11, day = 4, hour = 9, minute = 30\<rparr>\<rparr>
           [[(''Item'', Some ''P-100''), (''SKU'', Some ''S-1'')],
            [(''Item'', Some ''P-200''), (''SKU'', None)]]))
       = [Some ''[S-1] '', Some ''[P-200] '']"
proof -
  let ?w = "\<lparr>salesperson_cache = None, directory = Absent,
            now = \<lparr>month = 11, day = 4, hour = 9, minute = 30\<rparr>\<rparr>"
  let ?d = "[[(''Item'', Some ''P-100''), (''Doc #'', Some ''5''), (''SKU'', Some ''S-1'')],
            [(''Item'', Some ''P-200''), (''Doc #'', Some ''5''), (''SKU'', None)]]"
  let ?s = "[[(''Item'', Some ''P-100''), (''SKU'', Some ''S-1'')],
            [(''Item'', Some ''P-200''), (''SKU'', None)]]"
  have spec_d: "filter (spec_has_sku ?d) ?d
      = [[(''Item'', Some ''P-100''), (''Doc #'', Some ''5''), (''SKU'', Some ''S-1'')]]"
    by (simp add: spec_has_sku_def sku_none_doc_example(1) under_column_def dict_get_def
        strip_def strip_left.simps leading_space_def SPACES_def)
  have spec_s: "filter (spec_has_sku ?s) ?s = [[(''Item'', Some ''P-100''), (''SKU'', Some ''S-1'')]]"
    by (simp add: spec_has_sku_def sku_none_single_example(1) under_column_def dict_get_def
        strip_def strip_left.simps leading_space_def SPACES_def)
  have "column ''order_line/name'' (fst (convert_rows ?w ?d)) =
      map (\<lambda>r. Some (''['' @ field r sku_keys @ ''] '' @ field r desc_keys)) ?d"
    by (simp only: convert_rows_returns [OF at_hand_examples(1)] sku_none_doc_example(3,4)
        option.case column_doc_lines_label)
  then have out_d: "column ''order_line/name'' (fst (convert_rows ?w ?d))
      = [Some ''[S-1] '', Some ''[P-200] '']"
    by (simp add: sku_none_doc_example)
  have "column ''order_line/name'' (fst (convert_rows ?w ?s)) =
      map (\<lambda>r. Some (''['' @ field r sku_keys @ ''] '' @ field r desc_keys)) ?s"
    by (simp only: convert_rows_returns [OF at_hand_examples(1)] sku_none_single_example(3,4)
        option.case column_single_lines_label)
  then have out_s: "column ''order_line/name'' (fst (convert_rows ?w ?s))
      = [Some ''[S-1] '', Some ''[P-200] '']"
    by (simp add: sku_none_single_example)
  from sku_none_doc_example(1,2) spec_d out_d sku_none_single_example(1) spec_s out_s
  show ?thesis by (intro conjI)
qed

text \<open>
  C4, amended. The SKU of a row is read from that row: the SKU aliases are scanned in
  priority order and the first alias under which the row holds a text, not \<open>None\<close>, gives
  the SKU, trimmed. A row whose SKU so read is empty, or that holds no text under any SKU
  alias, produces no TemplateRow: the body of either loop, of the document-number mode and
  of the single-order fallback, leaves its state as it was on such a row. So, the
  salesperson directory being at hand, the conversion returns exactly as many TemplateRows
  as there are rows with a SKU so read, at most as many as there are rows; and it returns
  the same as when the rows without SKU after the first row are removed from the input.
\<close>

theorem C4_rows_without_sku_skipped:
  "(directory_at_hand w \<longrightarrow>
      (\<exists>out. fst (convert_rows w rows) = Inr out
             \<and> length out = length (filter has_sku rows) \<and> length out \<le> length rows))
   \<and> (has_sku r \<longleftrightarrow> get_val r sku_keys \<noteq> Inr [])
   \<and> (has_sku r \<longleftrightarrow>
        (case find (\<lambda>a. dict_get r a \<noteq> None) sku_keys of
           None \<Rightarrow> False
         | Some a \<Rightarrow> (case dict_get r a of Some text \<Rightarrow> strip text \<noteq> [] | None \<Rightarrow> False)))
   \<and> (\<not> has_sku r \<longrightarrow> doc_body dk ck uk sp s r = Inr s \<and> single_body q s' r = Inr s')
   \<and> fst (convert_rows w (r # rows)) = fst (convert_rows w (r # filter has_sku rows))"
proof -
  have first: "directory_at_hand w \<longrightarrow>
      (\<exists>out. fst (convert_rows w rows) = Inr out
             \<and> length out = length (filter has_sku rows) \<and> length out \<le> length rows)"
  proof
    assume "directory_at_hand w"
    then obtain out where out: "fst (convert_rows w rows) = Inr out"
      by (simp add: convert_rows_returns)
    have len: "length out = length (filter has_sku rows)"
      using out by (rule length_convert_rows)
    have "length (filter has_sku rows) \<le> length rows" by (rule length_filter_le)
    then show "\<exists>out. fst (convert_rows w rows) = Inr out
             \<and> length out = length (filter has_sku rows) \<and> length out \<le> length rows"
      using out len by simp
  qed
  have skip: "\<not> has_sku r \<longrightarrow> doc_body dk ck uk sp s r = Inr s \<and> single_body q s' r = Inr s'"
    by (cases s; cases s') (simp add: doc_body_returns single_body_returns)
  have f: "filter has_sku (r # rows) = filter has_sku (r # filter has_sku rows)"
    by simp
  have same: "fst (convert_rows w (r # rows)) = fst (convert_rows w (r # filter has_sku rows))"
    unfolding convert_rows_result
    using doc_key_of_Cons [of r rows "filter has_sku rows"]
      customer_key_of_Cons [of r rows "filter has_sku rows"]
      cust_key_of_Cons [of r rows "filter has_sku rows"]
      doc_lines_filter [OF f] single_lines_filter [OF f]
    by (simp split: option.splits sum.splits)
  from first has_sku_get_val [of r] has_sku_find [of r] skip same show ?thesis
    by (intro conjI)
qed

lemma no_sku_example:
  "\<not> has_sku [(''Description'', Some ''a note''), (''SKU'', Some ''  '')]"
  "filter has_sku
     [[(''SKU'', Some ''X1''), (''Description'', Some ''Bolt'')],
      [(''SKU'', Some ''  ''), (''Description'', Some ''a note'')],
      [(''SKU'', Some ''X2''), (''Description'', Some ''Nut'')]]
   = [[(''SKU'', Some ''X1''), (''Description'', Some ''Bolt'')],
      [(''SKU'', Some ''X2''), (''Description'', Some ''Nut'')]]"
  by (simp_all add: has_sku_def field_Cons field_Nil sku_keys_def strip_def strip_left.simps
      leading_space_def SPACES_def)

theorem C4_rows_without_sku_skipped_witness:
  "\<not> has_sku [(''Description'', Some ''a note''), (''SKU'', Some ''  '')]
   \<and> doc_body ''Doc #'' None None Map.empty (Some ''7'', [])
        [(''Description'', Some ''a note''), (''SKU'', Some ''  '')] = Inr (Some ''7'', [])
   \<and> single_body ''QO01020304'' (True, [])
        [(''Description'', Some ''a note''), (''SKU'', Some ''  '')] = Inr (True, [])
   \<and> (\<exists>out. fst (convert_rows
                   \<lparr>salesperson_cache = None, directory = Absent,
                    now = \<lparr>month = 11, day = 4, hour = 9, minute = 30\<rparr>\<rparr>
                   [[(''SKU'', Some ''X1''), (''Description'', Some ''Bolt'')],
                    [(''SKU'', Some ''  ''), (''Description'', Some ''a note'')],
                    [(''SKU'', Some ''X2''), (''Description'', Some ''Nut'')]]) = Inr out
             \<and> length out = 2)"
proof -
  let ?w = "\<lparr>salesperson_cache = None, directory = Absent,
            now = \<lparr>month = 11, day = 4, hour = 9, minute = 30\<rparr>\<rparr>"
  let ?n = "[(''Description'', Some ''a note''), (''SKU'', Some ''  '')]"
  let ?rows = "[[(''SKU'', Some ''X1''), (''Description'', Some ''Bolt'')],
                [(''SKU'', Some ''  ''), (''Description'', Some ''a note'')],
                [(''SKU'', Some ''X2''), (''Description'', Some ''Nut'')]]"
  note c4 = C4_rows_without_sku_skipped [where w = ?w and rows = ?rows and r = ?n
      and dk = "''Doc #''" and ck = None and uk = None and sp = Map.empty
      and s = "(Some ''7'', [])" and q = "''QO01020304''" and s' = "(True, [])"]
  have "\<not> has_sku ?n \<longrightarrow>
      doc_body ''Doc #'' None None Map.empty (Some ''7'', []) ?n = Inr (Some ''7'', [])
      \<and> single_body ''QO01020304'' (True, []) ?n = Inr (True, [])"
    by (rule conjunct1 [OF conjunct2 [OF conjunct2 [OF conjunct2 [OF c4]]]])
  then have skip: "doc_body ''Doc #'' None None Map.empty (Some ''7'', []) ?n = Inr (Some ''7'', [])"
    "single_body ''QO01020304'' (True, []) ?n = Inr (True, [])"
    using no_sku_example(1) by simp_all
  have "directory_at_hand ?w \<longrightarrow>
      (\<exists>out. fst (convert_rows ?w ?rows) = Inr out
             \<and> length out = length (filter has_sku ?rows) \<and> length out \<le> length ?rows)"
    by (rule conjunct1 [OF c4])
  then obtain out where "fst (convert_rows ?w ?rows) = Inr out"
    "length out = length (filter has_sku ?rows)"
    using at_hand_examples(1) [of "\<lparr>month = 11, day = 4, hour = 9, minute = 30\<rparr>"]
    by (elim impE exE conjE) (assumption, rule that, assumption+)
  then have "fst (convert_rows ?w ?rows) = Inr out \<and> length out = 2"
    by (simp only: no_sku_example(2)) simp
  then have conv: "\<exists>out. fst (convert_rows ?w ?rows) = Inr out \<and> length out = 2"
    by (rule exI)
  from no_sku_example(1) skip conv show ?thesis by (intro conjI)
qed

section \<open>Quantities and prices\<close>

lemma number_examples:
  "format_2f (parse_number ''1,250'') = ''1250.00''"
  "format_2f (parse_number ''19.5'') = ''19.50''"
  "format_2f (parse_number ''abc'') = ''0.00''"
  "format_2f (parse_number '''') = ''0.00''"
  "format_2f (parse_number ''1.234,5'') = ''1.23''"
  by code_simp+

lemma not_a_number_examples:
  "format_2f (parse_number ''nan'') = ''nan''"
  "format_2f (parse_number ''inf'') = ''inf''"
  "format_2f (parse_number ''-Infinity'') = ''-inf''"
  by code_simp+

lemma not_two_decimals: "\<not> two_decimals ''nan''" "\<not> two_decimals ''inf''" "\<not> two_decimals ''-inf''"
  by (simp_all add: two_decimals_def is_digit_def)

lemma is_digit_digit_char: "d < 10 \<Longrightarrow> is_digit (digit_char d)"
  by (simp add: is_digit_def digit_char_def of_char_of)

lemma str_nat_digits: "str_nat n \<noteq> [] \<and> list_all is_digit (str_nat n)"
proof (induction n rule: str_nat.induct)
  case (1 n)
  show ?case
  proof (cases "n < 10")
    case True
    then show ?thesis by (simp add: str_nat.simps [of n] is_digit_digit_char)
  next
    case False
    then show ?thesis using 1 by (simp add: str_nat.simps [of n] is_digit_digit_char)
  qed
qed

lemma str_nat_no_minus: "snd (split_minus (str_nat n)) = str_nat n"
proof -
  obtain c cs where c: "str_nat n = c # cs" using str_nat_digits [of n] by (cases "str_nat n") auto
  then have "is_digit c" using str_nat_digits [of n] by simp
  then have "c \<noteq> CHR ''-''" by (auto simp: is_digit_def)
  then show ?thesis using c by (simp add: split_minus_def)
qed

lemma finite_two_decimals: "two_decimals (format_2f (Finite neg m e))"
proof -
  define n where "n = (if 0 \<le> e then m * 100 * 2 ^ nat e else round_half_even (m * 100) (2 ^ nat (- e)))"
  have f: "format_2f (Finite neg m e) =
      (if neg then ''-'' else '''') @ str_nat (n div 100) @ ''.'' @ [digit_char (n mod 100 div 10), digit_char (n mod 10)]"
    by (simp add: format_2f_def n_def Let_def)
  have d: "is_digit (digit_char (n mod 100 div 10))" "is_digit (digit_char (n mod 10))"
    by (rule is_digit_digit_char, simp add: div_less_iff_less_mult)+
  have s: "snd (split_minus ((if neg then ''-'' else '''') @ str_nat (n div 100))) = str_nat (n div 100)"
  proof (cases neg)
    case True
    then show ?thesis by (simp add: split_minus_def)
  next
    case False
    then show ?thesis using str_nat_no_minus [of "n div 100"] by simp
  qed
  show ?thesis
    unfolding f two_decimals_def using d s str_nat_digits [of "n div 100"]
    by (simp add: Let_def)
qed

lemma parse_number_cases:
  "two_decimals (format_2f (parse_number text))
   \<or> format_2f (parse_number text) = ''nan''
   \<or> format_2f (parse_number text) = ''inf''
   \<or> format_2f (parse_number text) = ''-inf''"
proof (cases "parse_number text")
  case (Finite neg m e)
  then show ?thesis using finite_two_decimals by simp
next
  case (Infinity neg)
  then show ?thesis by (simp add: format_2f_def)
next
  case NaN
  then show ?thesis by (simp add: format_2f_def)
qed

lemma nan_example_rows:
  "doc_key_of [[(''SKU'', Some ''X1''), (''Qty'', Some ''nan''), (''Price'', Some ''inf'')]] = None"
  "filter has_sku [[(''SKU'', Some ''X1''), (''Qty'', Some ''nan''), (''Price'', Some ''inf'')]]
     = [[(''SKU'', Some ''X1''), (''Qty'', Some ''nan''), (''Price'', Some ''inf'')]]"
  "field [(''SKU'', Some ''X1''), (''Qty'', Some ''nan''), (''Price'', Some ''inf'')] qty_keys = ''nan''"
  "field [(''SKU'', Some ''X1''), (''Qty'', Some ''nan''), (''Price'', Some ''inf'')] price_keys = ''inf''"
  by (simp_all add: doc_key_of_def first_in_def header_of_def keys_def doc_keys_def
      has_sku_def field_Cons field_Nil sku_keys_def qty_keys_def price_keys_def strip_def strip_left.simps leading_space_def SPACES_def)

text \<open>
  C5. The quantity \<open>1,250\<close> is written \<open>1250.00\<close>, the price \<open>19.5\<close> is written \<open>19.50\<close>,
  and a text that is no number, or an empty one, is written \<open>0.00\<close> (lemma
  \<open>number_examples\<close>); every finite value is written with two decimals (lemma
  \<open>finite_two_decimals\<close>). But \<open>float\<close> also accepts the texts \<open>nan\<close>, \<open>inf\<close> and
  \<open>infinity\<close>, and no branch of the conversion sets them aside: a row with the quantity
  \<open>nan\<close> and the price \<open>inf\<close> is converted to a TemplateRow whose quantity is \<open>nan\<close>
  and whose price is \<open>inf\<close>, neither of them a number with two decimals. This is so in
  every world in which the salesperson directory is in the cache, or its file absent or
  readable.
\<close>

theorem C5_nan_quantity:
  assumes "directory_at_hand w"
  shows "column ''order_line/product_uom_qty''
     (fst (convert_rows w [[(''SKU'', Some ''X1''), (''Qty'', Some ''nan''), (''Price'', Some ''inf'')]]))
     = [Some ''nan'']
   \<and> column ''order_line/price_unit''
     (fst (convert_rows w [[(''SKU'', Some ''X1''), (''Qty'', Some ''nan''), (''Price'', Some ''inf'')]]))
     = [Some ''inf'']
   \<and> \<not> two_decimals ''nan'' \<and> \<not> two_decimals ''inf''"
proof -
  let ?r = "[(''SKU'', Some ''X1''), (''Qty'', Some ''nan''), (''Price'', Some ''inf'')]"
  let ?q = "''QO'' @ strftime_mdHM (now w)"
  have out: "fst (convert_rows w [?r]) = Inr [quotation_line ?q ?r]"
    by (simp only: convert_rows_returns [OF assms] nan_example_rows option.case single_lines_def
        list.case list.map)
  have "quotation_line ?q ?r ''order_line/product_uom_qty'' = Some (format_2f (parse_number (field ?r qty_keys)))"
    "quotation_line ?q ?r ''order_line/price_unit'' = Some (format_2f (parse_number (field ?r price_keys)))"
    by (simp_all add: quotation_line_def update_order_line_def Let_def)
  then have "quotation_line ?q ?r ''order_line/product_uom_qty'' = Some ''nan''"
    "quotation_line ?q ?r ''order_line/price_unit'' = Some ''inf''"
    by (simp_all only: nan_example_rows not_a_number_examples)
  then have "column ''order_line/product_uom_qty'' (fst (convert_rows w [?r])) = [Some ''nan'']"
    "column ''order_line/price_unit'' (fst (convert_rows w [?r])) = [Some ''inf'']"
    by (simp_all only: out column_def sum.case list.map)
  then show ?thesis using not_two_decimals by (intro conjI)
qed

theorem C5_nan_quantity_witness:
  "column ''order_line/product_uom_qty''
     (fst (convert_rows
        \<lparr>salesperson_cache = None, directory = Absent,
         now = \<lparr>month = 11, day = 4, hour = 9, minute = 30\<rparr>\<rparr>
        [[(''SKU'', Some ''X1''), (''Qty'', Some ''nan''), (''Price'', Some ''inf'')]]))
     = [Some ''nan'']
   \<and> column ''order_line/price_unit''
     (fst (convert_rows
        \<lparr>salesperson_cache = None, directory = Absent,
         now = \<lparr>month = 11, day = 4, hour = 9, minute = 30\<rparr>\<rparr>
        [[(''SKU'', Some ''X1''), (''Qty'', Some ''nan''), (''Price'', Some ''inf'')]]))
     = [Some ''inf'']"
proof -
  let ?w = "\<lparr>salesperson_cache = None, directory = Absent,
         now = \<lparr>month = 11, day = 4, hour = 9, minute = 30\<rparr>\<rparr>"
  have "directory_at_hand ?w" by (simp add: directory_at_hand_def)
  from C5_nan_quantity [OF this] show ?thesis by (elim conjE) (intro conjI)
qed

section \<open>The single-order fallback\<close>

lemma strftime_example:
  "strftime_mdHM \<lparr>month = 11, day = 4, hour = 9, minute = 30\<rparr> = ''11040930''"
  "strftime_mdHM \<lparr>month = 1, day = 2, hour = 3, minute = 4\<rparr> = ''01020304''"
  by code_simp+

text \<open>
  C6. If no key of the first row is a document-number alias, the whole file is one order:
  the conversion, the salesperson directory being at hand, returns one TemplateRow for each
  row with a SKU; the first of them carries the header fields, with the name \<open>QO\<close> followed
  by the month, the day, the hour and the minute of the clock, two digits each, \<open>Default User\<close>
  as partner and as customer code, and the fixed default name as user and as salesperson;
  every later one is a plain line, with empty header fields. (The quantity and the price a
  line carries are modelled for ASCII text, so this is stated of rows whose quantity and
  price texts are ASCII.) What the directory holds plays
  no part: two worlds with the same clock, in both of which the directory is at hand, give
  the same result. The directory is fetched all the same, before the rows are looked at, so
  when it is not at hand the error of reading its file leaves the conversion in this mode too.
\<close>

theorem C6_single_order_fallback:
  "(set (header_of rows) \<inter> set doc_keys = {} \<and> directory_at_hand w
        \<and> list_all (\<lambda>r. ascii (field r qty_keys) \<and> ascii (field r price_keys)) (filter has_sku rows) \<longrightarrow>
      fst (convert_rows w rows) =
        Inr (case filter has_sku rows of
               [] \<Rightarrow> []
             | r # rs \<Rightarrow> quotation_line (''QO'' @ strftime_mdHM (now w)) r # map plain_line rs))
   \<and> (set (header_of rows) \<inter> set doc_keys = {} \<and> directory_at_hand w \<and> directory_at_hand w'
        \<and> now w' = now w \<longrightarrow>
      fst (convert_rows w' rows) = fst (convert_rows w rows))
   \<and> (\<not> directory_at_hand w \<longrightarrow> fst (convert_rows w rows) = Inl OSError)
   \<and> map (quotation_line q r) HEADER_FIELDS =
        [Some q, Some ''Default User'', Some ''Jabes Omar De La Cruz'',
         Some ''Default User'', Some ''Jabes Omar De La Cruz'']
   \<and> map (plain_line r) HEADER_FIELDS = [Some [], Some [], Some [], Some [], Some []]
   \<and> strftime_mdHM \<lparr>month = m, day = d, hour = h, minute = n\<rparr> =
        [char_of (48 + m div 10 mod 10), char_of (48 + m mod 10),
         char_of (48 + d div 10 mod 10), char_of (48 + d mod 10),
         char_of (48 + h div 10 mod 10), char_of (48 + h mod 10),
         char_of (48 + n div 10 mod 10), char_of (48 + n mod 10)]
   \<and> strftime_mdHM \<lparr>month = 11, day = 4, hour = 9, minute = 30\<rparr> = ''11040930''
   \<and> strftime_mdHM \<lparr>month = 1, day = 2, hour = 3, minute = 4\<rparr> = ''01020304''"
proof -
  have q: "map (quotation_line q r) HEADER_FIELDS =
        [Some q, Some ''Default User'', Some ''Jabes Omar De La Cruz'',
         Some ''Default User'', Some ''Jabes Omar De La Cruz'']"
    by (simp add: HEADER_FIELDS_def quotation_line_def update_order_line_def blank_header_def
        Let_def DEFAULT_USER_def DEFAULT_SALESPERSON_def)
  have p: "map (plain_line r) HEADER_FIELDS = [Some [], Some [], Some [], Some [], Some []]"
    by (simp add: HEADER_FIELDS_def plain_line_def update_order_line_def blank_header_def Let_def)
  have digits: "strftime_mdHM \<lparr>month = m, day = d, hour = h, minute = n\<rparr> =
        [char_of (48 + m div 10 mod 10), char_of (48 + m mod 10),
         char_of (48 + d div 10 mod 10), char_of (48 + d mod 10),
         char_of (48 + h div 10 mod 10), char_of (48 + h mod 10),
         char_of (48 + n div 10 mod 10), char_of (48 + n mod 10)]"
    by (simp add: strftime_mdHM_def two_digits_def digit_char_def)
  have one: "fst (convert_rows v rows) =
        Inr (case filter has_sku rows of
               [] \<Rightarrow> []
             | r # rs \<Rightarrow> quotation_line (''QO'' @ strftime_mdHM (now v)) r # map plain_line rs)"
    if "set (header_of rows) \<inter> set doc_keys = {}" and "directory_at_hand v" for v
  proof -
    have none: "doc_key_of rows = None"
      using that(1) by (simp add: doc_key_of_def first_in_None)
    have "fst (convert_rows v rows) = Inr (single_lines (''QO'' @ strftime_mdHM (now v)) rows)"
      using none that(2) by (simp add: convert_rows_returns)
    then show ?thesis by (simp only: single_lines_def)
  qed
  have m: "set (header_of rows) \<inter> set doc_keys = {} \<and> directory_at_hand w
        \<and> list_all (\<lambda>r. ascii (field r qty_keys) \<and> ascii (field r price_keys)) (filter has_sku rows) \<longrightarrow>
      fst (convert_rows w rows) =
        Inr (case filter has_sku rows of
               [] \<Rightarrow> []
             | r # rs \<Rightarrow> quotation_line (''QO'' @ strftime_mdHM (now w)) r # map plain_line rs)"
  proof (intro impI, elim conjE)
    assume "set (header_of rows) \<inter> set doc_keys = {}" and "directory_at_hand w"
    then show "fst (convert_rows w rows) =
        Inr (case filter has_sku rows of
               [] \<Rightarrow> []
             | r # rs \<Rightarrow> quotation_line (''QO'' @ strftime_mdHM (now w)) r # map plain_line rs)"
      by (rule one)
  qed
  have same: "set (header_of rows) \<inter> set doc_keys = {} \<and> directory_at_hand w \<and> directory_at_hand w'
        \<and> now w' = now w \<longrightarrow>
      fst (convert_rows w' rows) = fst (convert_rows w rows)"
  proof (intro impI, elim conjE)
    assume a: "set (header_of rows) \<inter> set doc_keys = {}" "directory_at_hand w"
      "directory_at_hand w'" "now w' = now w"
    show "fst (convert_rows w' rows) = fst (convert_rows w rows)"
      by (simp only: one [OF a(1) a(2)] one [OF a(1) a(3)] a(4))
  qed
  have raises: "\<not> directory_at_hand w \<longrightarrow> fst (convert_rows w rows) = Inl OSError"
    by (rule impI) (rule convert_rows_raises)
  from m same raises q p digits strftime_example show ?thesis by (intro conjI)
qed

lemma fallback_example_rows:
  "filter has_sku
     [[(''SKU'', Some ''X1''), (''Description'', Some ''Widget''), (''Qty'', Some ''2'')],
      [(''SKU'', Some ''''), (''Description'', Some ''a note''), (''Qty'', None)],
      [(''SKU'', Some ''X2''), (''Description'', Some ''Gadget''), (''Qty'', Some ''1'')]]
   = [[(''SKU'', Some ''X1''), (''Description'', Some ''Widget''), (''Qty'', Some ''2'')],
      [(''SKU'', Some ''X2''), (''Description'', Some ''Gadget''), (''Qty'', Some ''1'')]]"
  by (simp add: has_sku_def field_Cons field_Nil sku_keys_def strip_def strip_left.simps
      leading_space_def SPACES_def)

lemma fallback_example_fields:
  "field [(''SKU'', Some ''X1''), (''Description'', Some ''Widget''), (''Qty'', Some ''2'')] qty_keys = ''2''"
  "field [(''SKU'', Some ''X1''), (''Description'', Some ''Widget''), (''Qty'', Some ''2'')] price_keys = []"
  "field [(''SKU'', Some ''X2''), (''Description'', Some ''Gadget''), (''Qty'', Some ''1'')] qty_keys = ''1''"
  "field [(''SKU'', Some ''X2''), (''Description'', Some ''Gadget''), (''Qty'', Some ''1'')] price_keys = []"
  by (simp_all add: field_Cons field_Nil qty_keys_def price_keys_def strip_def strip_left.simps
      leading_space_def SPACES_def)

lemma fallback_example_ascii: "ascii ''2''" "ascii ''1''" "ascii []"
  by (simp_all add: ascii_def)

lemma fallback_example_header:
  "set (header_of
     [[(''SKU'', Some ''X1''), (''Description'', Some ''Widget''), (''Qty'', Some ''2'')],
      [(''SKU'', Some ''''), (''Description'', Some ''a note''), (''Qty'', None)],
      [(''SKU'', Some ''X2''), (''Description'', Some ''Gadget''), (''Qty'', Some ''1'')]])
   \<inter> set doc_keys = {}"
  by (simp add: header_of_def keys_def doc_keys_def)

theorem C6_single_order_fallback_witness:
  "set (header_of
     [[(''SKU'', Some ''X1''), (''Description'', Some ''Widget''), (''Qty'', Some ''2'')],
      [(''SKU'', Some ''''), (''Description'', Some ''a note''), (''Qty'', None)],
      [(''SKU'', Some ''X2''), (''Description'', Some ''Gadget''), (''Qty'', Some ''1'')]])
   \<inter> set doc_keys = {}
   \<and> fst (convert_rows
        \<lparr>salesperson_cache = None, directory = Absent,
         now = \<lparr>month = 11, day = 4, hour = 9, minute = 30\<rparr>\<rparr>
        [[(''SKU'', Some ''X1''), (''Description'', Some ''Widget''), (''Qty'', Some ''2'')],
         [(''SKU'', Some ''''), (''Description'', Some ''a note''), (''Qty'', None)],
         [(''SKU'', Some ''X2''), (''Description'', Some ''Gadget''), (''Qty'', Some ''1'')]])
     = Inr [quotation_line ''QO11040930''
              [(''SKU'', Some ''X1''), (''Description'', Some ''Widget''), (''Qty'', Some ''2'')],
            plain_line
              [(''SKU'', Some ''X2''), (''Description'', Some ''Gadget''), (''Qty'', Some ''1'')]]
   \<and> fst (convert_rows
        \<lparr>salesperson_cache = Some [''JD'' \<mapsto> ''John Doe''], directory = Unreadable,
         now = \<lparr>month = 1, day = 2, hour = 3, minute = 4\<rparr>\<rparr>
        [[(''SKU'', Some ''X1''), (''Description'', Some ''Widget''), (''Qty'', Some ''2'')],
         [(''SKU'', Some ''''), (''Description'', Some ''a note''), (''Qty'', None)],
         [(''SKU'', Some ''X2''), (''Description'', Some ''Gadget''), (''Qty'', Some ''1'')]])
     = Inr [quotation_line ''QO01020304''
              [(''SKU'', Some ''X1''), (''Description'', Some ''Widget''), (''Qty'', Some ''2'')],
            plain_line
              [(''SKU'', Some ''X2''), (''Description'', Some ''Gadget''), (''Qty'', Some ''1'')]]
   \<and> fst (convert_rows
        \<lparr>salesperson_cache = None,
         directory = Utf8 [[(''Code'', Some ''JD''), (''Name'', Some ''John Doe'')]],
         now = \<lparr>month = 11, day = 4, hour = 9, minute = 30\<rparr>\<rparr>
        [[(''SKU'', Some ''X1''), (''Description'', Some ''Widget''), (''Qty'', Some ''2'')],
         [(''SKU'', Some ''''), (''Description'', Some ''a note''), (''Qty'', None)],
         [(''SKU'', Some ''X2''), (''Description'', Some ''Gadget''), (''Qty'', Some ''1'')]])
     = fst (convert_rows
        \<lparr>salesperson_cache = None, directory = Absent,
         now = \<lparr>month = 11, day = 4, hour = 9, minute = 30\<rparr>\<rparr>
        [[(''SKU'', Some ''X1''), (''Description'', Some ''Widget''), (''Qty'', Some ''2'')],
         [(''SKU'', Some ''''), (''Description'', Some ''a note''), (''Qty'', None)],
         [(''SKU'', Some ''X2''), (''Description'', Some ''Gadget''), (''Qty'', Some ''1'')]])"
proof -
  let ?rows = "[[(''SKU'', Some ''X1''), (''Description'', Some ''Widget''), (''Qty'', Some ''2'')],
         [(''SKU'', Some ''''), (''Description'', Some ''a note''), (''Qty'', None)],
         [(''SKU'', Some ''X2''), (''Description'', Some ''Gadget''), (''Qty'', Some ''1'')]]"
  let ?a = "\<lparr>salesperson_cache = None, directory = Absent,
         now = \<lparr>month = 11, day = 4, hour = 9, minute = 30\<rparr>\<rparr>"
  let ?b = "\<lparr>salesperson_cache = Some [''JD'' \<mapsto> ''John Doe''], directory = Unreadable,
         now = \<lparr>month = 1, day = 2, hour = 3, minute = 4\<rparr>\<rparr>"
  let ?c = "\<lparr>salesperson_cache = None,
         directory = Utf8 [[(''Code'', Some ''JD''), (''Name'', Some ''John Doe'')]],
         now = \<lparr>month = 11, day = 4, hour = 9, minute = 30\<rparr>\<rparr>"
  have hand: "directory_at_hand ?a" "directory_at_hand ?b" "directory_at_hand ?c"
    by (simp_all add: directory_at_hand_def)
  have clock: "now ?c = now ?a" by simp
  have plain: "list_all (\<lambda>r. ascii (field r qty_keys) \<and> ascii (field r price_keys)) (filter has_sku ?rows)"
    by (simp only: fallback_example_rows list.pred_inject fallback_example_fields
        fallback_example_ascii simp_thms)
  have "set (header_of ?rows) \<inter> set doc_keys = {} \<and> directory_at_hand ?a
        \<and> list_all (\<lambda>r. ascii (field r qty_keys) \<and> ascii (field r price_keys)) (filter has_sku ?rows) \<longrightarrow>
      fst (convert_rows ?a ?rows) =
        Inr (case filter has_sku ?rows of
               [] \<Rightarrow> []
             | r # rs \<Rightarrow> quotation_line (''QO'' @ strftime_mdHM (now ?a)) r # map plain_line rs)"
    by (rule conjunct1 [OF C6_single_order_fallback [where rows = ?rows and w = ?a]])
  then have "fst (convert_rows ?a ?rows) =
        Inr (case filter has_sku ?rows of
               [] \<Rightarrow> []
             | r # rs \<Rightarrow> quotation_line (''QO'' @ strftime_mdHM (now ?a)) r # map plain_line rs)"
    using fallback_example_header hand(1) plain by (elim impE) (intro conjI)
  then have a: "fst (convert_rows ?a ?rows) =
      Inr [quotation_line ''QO11040930''
              [(''SKU'', Some ''X1''), (''Description'', Some ''Widget''), (''Qty'', Some ''2'')],
            plain_line
              [(''SKU'', Some ''X2''), (''Description'', Some ''Gadget''), (''Qty'', Some ''1'')]]"
    by (simp only: fallback_example_rows strftime_example world.simps list.case list.map
        append.simps)
  have "set (header_of ?rows) \<inter> set doc_keys = {} \<and> directory_at_hand ?b
        \<and> list_all (\<lambda>r. ascii (field r qty_keys) \<and> ascii (field r price_keys)) (filter has_sku ?rows) \<longrightarrow>
      fst (convert_rows ?b ?rows) =
        Inr (case filter has_sku ?rows of
               [] \<Rightarrow> []
             | r # rs \<Rightarrow> quotation_line (''QO'' @ strftime_mdHM (now ?b)) r # map plain_line rs)"
    by (rule conjunct1 [OF C6_single_order_fallback [where rows = ?rows and w = ?b]])
  then have "fst (convert_rows ?b ?rows) =
        Inr (case filter has_sku ?rows of
               [] \<Rightarrow> []
             | r # rs \<Rightarrow> quotation_line (''QO'' @ strftime_mdHM (now ?b)) r # map plain_line rs)"
    using fallback_example_header hand(2) plain by (elim impE) (intro conjI)
  then have b: "fst (convert_rows ?b ?rows) =
      Inr [quotation_line ''QO01020304''
              [(''SKU'', Some ''X1''), (''Description'', Some ''Widget''), (''Qty'', Some ''2'')],
            plain_line
              [(''SKU'', Some ''X2''), (''Description'', Some ''Gadget''), (''Qty'', Some ''1'')]]"
    by (simp only: fallback_example_rows strftime_example world.simps list.case list.map
        append.simps)
  have "set (header_of ?rows) \<inter> set doc_keys = {} \<and> directory_at_hand ?a \<and> directory_at_hand ?c
        \<and> now ?c = now ?a \<longrightarrow>
      fst (convert_rows ?c ?rows) = fst (convert_rows ?a ?rows)"
    by (rule conjunct1 [OF conjunct2
        [OF C6_single_order_fallback [where rows = ?rows and w = ?a and w' = ?c]]])
  then have c: "fst (convert_rows ?c ?rows) = fst (convert_rows ?a ?rows)"
    using fallback_example_header hand(1,3) clock by (elim impE) (intro conjI)
  from fallback_example_header a b c show ?thesis by (intro conjI)
qed

lemma map_blank_lines:
  "map header_blank
     (map (\<lambda>(start, r). if start then header_line dk ck uk sp r else plain_line r)
        (zip (group_starts current (map f rs)) rs)) = map Not (group_starts current (map f rs))"
  by (induction rs arbitrary: current) (simp_all add: header_line_not_blank plain_line_blank)

lemma map_blank_doc_lines:
  "map header_blank (doc_lines dk ck uk sp current rows) =
     map Not (group_starts current (map (\<lambda>r. field r [dk]) (filter has_sku rows)))"
  by (simp only: doc_lines_def Let_def map_blank_lines)

lemma length_filter_via_map: "length (filter P xs) = length (filter (\<lambda>b. b) (map P xs))"
  by (induction xs) simp_all

lemma filter_all: "list_all P xs \<Longrightarrow> filter P xs = xs"
  by (induction xs) simp_all

lemma list_all_take: "list_all P xs \<Longrightarrow> list_all P (take n xs)"
  by (simp add: list_all_iff) (meson in_set_takeD)

text \<open>
  C2. Let a document-number column be resolved and let the rows, all of them with a SKU,
  carry the document numbers 1, 1, 2, 2, 0, 3 in this order, the salesperson directory being
  in the cache, or its file absent or readable. Then the conversion returns
  six TemplateRows; the first, the third and the sixth have every header field filled, the
  other three have every header field empty, so three rows carry a header. After the first
  four rows the tracked document number is 2; the row with the number 0 leaves it at 2 and
  adds one TemplateRow with empty header fields.
\<close>

theorem C2_grouping_example:
  assumes "doc_key_of rows = Some dk"
    and "list_all has_sku rows"
    and "map (\<lambda>r. field r [dk]) rows = [''1'', ''1'', ''2'', ''2'', ''0'', ''3'']"
    and "directory_at_hand w"
  shows "\<exists>out. fst (convert_rows w rows) = Inr out \<and> length out = 6
      \<and> map header_filled out = [True, False, True, False, False, True]
      \<and> map header_blank out = [False, True, False, True, True, False]
      \<and> length (filter header_filled out) = 3
      \<and> (\<exists>acc t. for_each (doc_body dk ck uk sp) (None, []) (take 4 rows) = Inr (Some ''2'', acc)
            \<and> doc_body dk ck uk sp (Some ''2'', acc) (rows ! 4) = Inr (Some ''2'', acc @ [t])
            \<and> header_blank t)"
proof -
  let ?docs = "[''1'', ''1'', ''2'', ''2'', ''0'', ''3'']"
  let ?out = "doc_lines dk (customer_key_of rows) (cust_key_of rows) (directory_of w) None rows"
  have all: "filter has_sku rows = rows" using assms(2) by (rule filter_all)
  have "length (map (\<lambda>r. field r [dk]) rows) = length ?docs" by (simp only: assms(3))
  then have len: "length rows = 6" by simp
  have starts: "group_starts None ?docs = [True, False, True, False, False, True]"
    by (simp add: opens_def)
  have out: "fst (convert_rows w rows) = Inr ?out"
    using assms(1,4) by (simp add: convert_rows_returns)
  have filled: "map header_filled ?out = [True, False, True, False, False, True]"
    by (simp only: map_filled_doc_lines all assms(3) starts)
  have blank: "map header_blank ?out = [False, True, False, True, True, False]"
    by (simp only: map_blank_doc_lines all assms(3) starts) simp
  have three: "length (filter header_filled ?out) = 3"
  proof -
    have "length (filter header_filled ?out) = length (filter (\<lambda>b. b) (map header_filled ?out))"
      by (rule length_filter_via_map)
    then show ?thesis by (simp only: filled) simp
  qed
  have six: "length ?out = 6" by (simp add: length_doc_lines all len)
  have take4: "filter has_sku (take 4 rows) = take 4 rows"
    using assms(2) by (intro filter_all list_all_take)
  have "map (\<lambda>r. field r [dk]) (take 4 rows) = take 4 ?docs"
    by (simp only: take_map [symmetric] assms(3))
  then have docs4: "map (\<lambda>r. field r [dk]) (take 4 rows) = [''1'', ''1'', ''2'', ''2'']"
    by simp
  have loop: "for_each (doc_body dk ck uk sp) (None, []) (take 4 rows) =
      Inr (Some ''2'', doc_lines dk ck uk sp None (take 4 rows))"
    by (simp add: doc_loop_returns take4 docs4 opens_def)
  have r4: "has_sku (rows ! 4)" using assms(2) len by (simp add: list_all_length)
  have "map (\<lambda>r. field r [dk]) rows ! 4 = ?docs ! 4" by (simp only: assms(3))
  then have d4: "field (rows ! 4) [dk] = ''0''" using len by simp
  have zero: "doc_body dk ck uk sp (Some ''2'', acc) (rows ! 4) = Inr (Some ''2'', acc @ [plain_line (rows ! 4)])"
    for acc
    by (simp add: doc_body_returns r4 d4 opens_def)
  have state: "\<exists>acc t. for_each (doc_body dk ck uk sp) (None, []) (take 4 rows) = Inr (Some ''2'', acc)
            \<and> doc_body dk ck uk sp (Some ''2'', acc) (rows ! 4) = Inr (Some ''2'', acc @ [t])
            \<and> header_blank t"
    using loop zero [of "doc_lines dk ck uk sp None (take 4 rows)"] plain_line_blank [of "rows ! 4"]
    by (intro exI conjI)
  show ?thesis
    by (rule exI [of _ ?out]) (simp only: out six filled blank three state simp_thms)
qed

lemma grouping_example_rows:
  "doc_key_of
     [[(''Doc #'', Some ''1''), (''SKU'', Some ''A'')], [(''Doc #'', Some ''1''), (''SKU'', Some ''B'')],
      [(''Doc #'', Some ''2''), (''SKU'', Some ''C'')], [(''Doc #'', Some ''2''), (''SKU'', Some ''D'')],
      [(''Doc #'', Some ''0''), (''SKU'', Some ''E'')], [(''Doc #'', Some ''3''), (''SKU'', Some ''F'')]]
     = Some ''Doc #''"
  "list_all has_sku
     [[(''Doc #'', Some ''1''), (''SKU'', Some ''A'')], [(''Doc #'', Some ''1''), (''SKU'', Some ''B'')],
      [(''Doc #'', Some ''2''), (''SKU'', Some ''C'')], [(''Doc #'', Some ''2''), (''SKU'', Some ''D'')],
      [(''Doc #'', Some ''0''), (''SKU'', Some ''E'')], [(''Doc #'', Some ''3''), (''SKU'', Some ''F'')]]"
  "map (\<lambda>r. field r [''Doc #''])
     [[(''Doc #'', Some ''1''), (''SKU'', Some ''A'')], [(''Doc #'', Some ''1''), (''SKU'', Some ''B'')],
      [(''Doc #'', Some ''2''), (''SKU'', Some ''C'')], [(''Doc #'', Some ''2''), (''SKU'', Some ''D'')],
      [(''Doc #'', Some ''0''), (''SKU'', Some ''E'')], [(''Doc #'', Some ''3''), (''SKU'', Some ''F'')]]
     = [''1'', ''1'', ''2'', ''2'', ''0'', ''3'']"
  by (simp_all add: doc_key_of_def first_in_def header_of_def keys_def doc_keys_def
      has_sku_def field_Cons field_Nil sku_keys_def strip_def strip_left.simps leading_space_def SPACES_def)

theorem C2_grouping_example_witness:
  "\<exists>out. fst (convert_rows
        \<lparr>salesperson_cache = None, directory = Absent,
         now = \<lparr>month = 11, day = 4, hour = 9, minute = 30\<rparr>\<rparr>
        [[(''Doc #'', Some ''1''), (''SKU'', Some ''A'')], [(''Doc #'', Some ''1''), (''SKU'', Some ''B'')],
         [(''Doc #'', Some ''2''), (''SKU'', Some ''C'')], [(''Doc #'', Some ''2''), (''SKU'', Some ''D'')],
         [(''Doc #'', Some ''0''), (''SKU'', Some ''E'')], [(''Doc #'', Some ''3''), (''SKU'', Some ''F'')]])
       = Inr out
     \<and> length out = 6
     \<and> map header_filled out = [True, False, True, False, False, True]
     \<and> length (filter header_filled out) = 3"
proof -
  let ?w = "\<lparr>salesperson_cache = None, directory = Absent,
         now = \<lparr>month = 11, day = 4, hour = 9, minute = 30\<rparr>\<rparr>"
  let ?rows = "[[(''Doc #'', Some ''1''), (''SKU'', Some ''A'')], [(''Doc #'', Some ''1''), (''SKU'', Some ''B'')],
         [(''Doc #'', Some ''2''), (''SKU'', Some ''C'')], [(''Doc #'', Some ''2''), (''SKU'', Some ''D'')],
         [(''Doc #'', Some ''0''), (''SKU'', Some ''E'')], [(''Doc #'', Some ''3''), (''SKU'', Some ''F'')]]"
  from C2_grouping_example [where w = ?w and ck = None and uk = None and sp = Map.empty,
      OF grouping_example_rows at_hand_examples(1)]
  obtain out where "fst (convert_rows ?w ?rows) = Inr out" "length out = 6"
    "map header_filled out = [True, False, True, False, False, True]"
    "length (filter header_filled out) = 3"
    by (elim exE conjE) (rule that, assumption+)
  then show ?thesis by (intro exI [of _ out] conjI)
qed

lemma replicate_starts:
  "map header_filled (map plain_line rs) = replicate (length rs) False"
  by (induction rs) (simp_all add: plain_line_not_filled)

lemma quotation_name_nonempty: "''QO'' @ s \<noteq> []"
  by simp

lemma line_columns:
  assumes "map (\<lambda>t. map t LINE_FIELDS) out = map (\<lambda>r. [a r, b r, c r, d r, e r, f r]) rs"
  shows "map (\<lambda>t. [t ''order_line/name'', t ''order_line/product_id'',
                    t ''order_line/product_template_id/name'', t ''order_line/product_template_id'']) out
           = map (\<lambda>r. [a r, d r, e r, f r]) rs"
    and "map (\<lambda>t. [t ''order_line/product_uom_qty'', t ''order_line/price_unit'']) out
           = map (\<lambda>r. [b r, c r]) rs"
proof -
  have "map (\<lambda>l. [l ! 0, l ! 3, l ! 4, l ! 5]) (map (\<lambda>t. map t LINE_FIELDS) out)
      = map (\<lambda>l. [l ! 0, l ! 3, l ! 4, l ! 5]) (map (\<lambda>r. [a r, b r, c r, d r, e r, f r]) rs)"
    by (simp only: assms)
  then show "map (\<lambda>t. [t ''order_line/name'', t ''order_line/product_id'',
                    t ''order_line/product_template_id/name'', t ''order_line/product_template_id'']) out
           = map (\<lambda>r. [a r, d r, e r, f r]) rs"
    by (simp add: LINE_FIELDS_def comp_def)
  have "map (\<lambda>l. [l ! 1, l ! 2]) (map (\<lambda>t. map t LINE_FIELDS) out)
      = map (\<lambda>l. [l ! 1, l ! 2]) (map (\<lambda>r. [a r, b r, c r, d r, e r, f r]) rs)"
    by (simp only: assms)
  then show "map (\<lambda>t. [t ''order_line/product_uom_qty'', t ''order_line/price_unit'']) out
           = map (\<lambda>r. [b r, c r]) rs"
    by (simp add: LINE_FIELDS_def comp_def)
qed

text \<open>
  C3. In every output of the conversion, the salesperson directory being at hand, each
  TemplateRow has either all five header fields filled or all five empty, never a mixture,
  and has exactly the twelve template columns, the six order-line columns among them. The
  rows with a filled header are exactly the first rows of the order groups: in the
  document-number mode those whose document number opens a group, in the single-order
  fallback the first row only. The order-line columns hold the product label, the
  description and the label again of the input row the TemplateRow comes from, and, when the
  quantity and price texts are ASCII, the quantity and the price read from them.
\<close>

theorem C3_sparse_header_invariant:
  assumes "directory_at_hand w"
  shows "\<exists>out. fst (convert_rows w rows) = Inr out
     \<and> (\<forall>t \<in> set out. (header_filled t \<or> header_blank t) \<and> (header_filled t \<noteq> header_blank t)
                       \<and> dom t = set TEMPLATE_HEADERS)
     \<and> map header_filled out =
         (case doc_key_of rows of
            Some dk \<Rightarrow> group_starts None (map (\<lambda>r. field r [dk]) (filter has_sku rows))
          | None \<Rightarrow> (case filter has_sku rows of [] \<Rightarrow> [] | r # rs \<Rightarrow> True # replicate (length rs) False))
     \<and> map (\<lambda>t. [t ''order_line/name'', t ''order_line/product_id'',
                  t ''order_line/product_template_id/name'', t ''order_line/product_template_id'']) out =
         map (\<lambda>r. [Some (''['' @ field r sku_keys @ ''] '' @ field r desc_keys),
                    Some (''['' @ field r sku_keys @ ''] '' @ field r desc_keys),
                    Some (field r desc_keys),
                    Some (''['' @ field r sku_keys @ ''] '' @ field r desc_keys)])
             (filter has_sku rows)
     \<and> (list_all (\<lambda>r. ascii (field r qty_keys) \<and> ascii (field r price_keys)) (filter has_sku rows) \<longrightarrow>
          map (\<lambda>t. [t ''order_line/product_uom_qty'', t ''order_line/price_unit'']) out =
            map (\<lambda>r. [Some (format_2f (parse_number (field r qty_keys))),
                       Some (format_2f (parse_number (field r price_keys)))])
                (filter has_sku rows))"
proof -
  let ?q = "''QO'' @ strftime_mdHM (now w)"
  let ?vals = "\<lambda>r. [Some (''['' @ field r sku_keys @ ''] '' @ field r desc_keys),
                    Some (format_2f (parse_number (field r qty_keys))),
                    Some (format_2f (parse_number (field r price_keys))),
                    Some (''['' @ field r sku_keys @ ''] '' @ field r desc_keys),
                    Some (field r desc_keys),
                    Some (''['' @ field r sku_keys @ ''] '' @ field r desc_keys)]"
  have vals: "map (plain_line r) LINE_FIELDS = ?vals r" for r
    by (simp add: plain_line_def line_values)
  have good_header: "(header_filled t \<or> header_blank t) \<and> (header_filled t \<noteq> header_blank t)
       \<and> dom t = set TEMPLATE_HEADERS"
    if "t = header_line dk ck uk sp r" for t dk ck uk sp r
    using that header_line_filled header_line_not_blank dom_header_line by simp
  have good_plain: "(header_filled t \<or> header_blank t) \<and> (header_filled t \<noteq> header_blank t)
       \<and> dom t = set TEMPLATE_HEADERS"
    if "t = plain_line r" for t r
    using that plain_line_blank plain_line_not_filled dom_plain_line by simp
  have good_quote: "(header_filled t \<or> header_blank t) \<and> (header_filled t \<noteq> header_blank t)
       \<and> dom t = set TEMPLATE_HEADERS"
    if "t = quotation_line ?q r" for t r
    using that quotation_line_filled [OF quotation_name_nonempty] filled_not_blank
      dom_quotation_line by blast
  show ?thesis
  proof (cases "doc_key_of rows")
    case None
    let ?out = "single_lines ?q rows"
    have out: "fst (convert_rows w rows) = Inr ?out"
      using None assms by (simp add: convert_rows_returns)
    have inv: "\<forall>t \<in> set ?out. (header_filled t \<or> header_blank t) \<and> (header_filled t \<noteq> header_blank t)
                       \<and> dom t = set TEMPLATE_HEADERS"
    proof
      fix t
      assume "t \<in> set ?out"
      then obtain r where "t = quotation_line ?q r \<or> t = plain_line r"
        by (auto dest!: set_single_lines)
      then show "(header_filled t \<or> header_blank t) \<and> (header_filled t \<noteq> header_blank t)
                       \<and> dom t = set TEMPLATE_HEADERS"
      proof
        assume "t = quotation_line ?q r"
        then show ?thesis by (rule good_quote)
      next
        assume "t = plain_line r"
        then show ?thesis by (rule good_plain)
      qed
    qed
    have starts: "map header_filled ?out =
        (case filter has_sku rows of [] \<Rightarrow> [] | r # rs \<Rightarrow> True # replicate (length rs) False)"
    proof (cases "filter has_sku rows")
      case Nil
      then show ?thesis by (simp add: single_lines_def)
    next
      case (Cons a list)
      have "header_filled (quotation_line ?q a)"
        by (rule quotation_line_filled) (rule quotation_name_nonempty)
      then have "map header_filled (quotation_line ?q a # map plain_line list) =
          True # replicate (length list) False"
        by (simp only: list.map replicate_starts)
      then show ?thesis by (simp only: single_lines_def Cons list.case)
    qed
    have lines: "map (\<lambda>t. map t LINE_FIELDS) ?out = map ?vals (filter has_sku rows)"
      by (simp add: line_values_single_lines vals)
    from starts have starts': "map header_filled ?out =
         (case doc_key_of rows of
            Some dk \<Rightarrow> group_starts None (map (\<lambda>r. field r [dk]) (filter has_sku rows))
          | None \<Rightarrow> (case filter has_sku rows of [] \<Rightarrow> [] | r # rs \<Rightarrow> True # replicate (length rs) False))"
      by (simp only: None option.case)
    note labels = line_columns(1) [OF lines]
    have numbers: "list_all (\<lambda>r. ascii (field r qty_keys) \<and> ascii (field r price_keys)) (filter has_sku rows) \<longrightarrow>
          map (\<lambda>t. [t ''order_line/product_uom_qty'', t ''order_line/price_unit'']) ?out =
            map (\<lambda>r. [Some (format_2f (parse_number (field r qty_keys))),
                       Some (format_2f (parse_number (field r price_keys)))])
                (filter has_sku rows)"
      using line_columns(2) [OF lines] by (rule impI)
    from out inv starts' labels numbers show ?thesis
      by (intro exI [of _ ?out] conjI)
  next
    case (Some dk)
    let ?out = "doc_lines dk (customer_key_of rows) (cust_key_of rows) (directory_of w) None rows"
    have out: "fst (convert_rows w rows) = Inr ?out"
      using Some assms by (simp add: convert_rows_returns)
    have inv: "\<forall>t \<in> set ?out. (header_filled t \<or> header_blank t) \<and> (header_filled t \<noteq> header_blank t)
                       \<and> dom t = set TEMPLATE_HEADERS"
    proof
      fix t
      assume "t \<in> set ?out"
      then obtain r where
        "t = header_line dk (customer_key_of rows) (cust_key_of rows) (directory_of w) r \<or> t = plain_line r"
        by (auto dest!: set_doc_lines)
      then show "(header_filled t \<or> header_blank t) \<and> (header_filled t \<noteq> header_blank t)
                       \<and> dom t = set TEMPLATE_HEADERS"
      proof
        assume "t = header_line dk (customer_key_of rows) (cust_key_of rows) (directory_of w) r"
        then show ?thesis by (rule good_header)
      next
        assume "t = plain_line r"
        then show ?thesis by (rule good_plain)
      qed
    qed
    have starts: "map header_filled ?out =
        group_starts None (map (\<lambda>r. field r [dk]) (filter has_sku rows))"
      by (rule map_filled_doc_lines)
    have lines: "map (\<lambda>t. map t LINE_FIELDS) ?out = map ?vals (filter has_sku rows)"
      by (simp add: line_values_doc_lines vals)
    from starts have starts': "map header_filled ?out =
         (case doc_key_of rows of
            Some dk \<Rightarrow> group_starts None (map (\<lambda>r. field r [dk]) (filter has_sku rows))
          | None \<Rightarrow> (case filter has_sku rows of [] \<Rightarrow> [] | r # rs \<Rightarrow> True # replicate (length rs) False))"
      by (simp only: Some option.case)
    note labels = line_columns(1) [OF lines]
    have numbers: "list_all (\<lambda>r. ascii (field r qty_keys) \<and> ascii (field r price_keys)) (filter has_sku rows) \<longrightarrow>
          map (\<lambda>t. [t ''order_line/product_uom_qty'', t ''order_line/price_unit'']) ?out =
            map (\<lambda>r. [Some (format_2f (parse_number (field r qty_keys))),
                       Some (format_2f (parse_number (field r price_keys)))])
                (filter has_sku rows)"
      using line_columns(2) [OF lines] by (rule impI)
    from out inv starts' labels numbers show ?thesis
      by (intro exI [of _ ?out] conjI)
  qed
qed

lemma invariant_example_rows:
  "doc_key_of [[(''Doc #'', Some ''1001''), (''SKU'', Some ''X1''), (''Qty'', Some ''2''), (''Price'', Some ''19.5'')],
               [(''Doc #'', Some ''1001''), (''SKU'', Some ''X2''), (''Qty'', Some ''1,250''), (''Price'', Some ''abc'')]]
     = Some ''Doc #''"
  "filter has_sku
      [[(''Doc #'', Some ''1001''), (''SKU'', Some ''X1''), (''Qty'', Some ''2''), (''Price'', Some ''19.5'')],
       [(''Doc #'', Some ''1001''), (''SKU'', Some ''X2''), (''Qty'', Some ''1,250''), (''Price'', Some ''abc'')]]
     = [[(''Doc #'', Some ''1001''), (''SKU'', Some ''X1''), (''Qty'', Some ''2''), (''Price'', Some ''19.5'')],
        [(''Doc #'', Some ''1001''), (''SKU'', Some ''X2''), (''Qty'', Some ''1,250''), (''Price'', Some ''abc'')]]"
  "map (\<lambda>r. field r [''Doc #''])
     [[(''Doc #'', Some ''1001''), (''SKU'', Some ''X1''), (''Qty'', Some ''2''), (''Price'', Some ''19.5'')],
      [(''Doc #'', Some ''1001''), (''SKU'', Some ''X2''), (''Qty'', Some ''1,250''), (''Price'', Some ''abc'')]]
     = [''1001'', ''1001'']"
  "field [(''Doc #'', Some ''1001''), (''SKU'', Some ''X1''), (''Qty'', Some ''2''), (''Price'', Some ''19.5'')] qty_keys = ''2''"
  "field [(''Doc #'', Some ''1001''), (''SKU'', Some ''X1''), (''Qty'', Some ''2''), (''Price'', Some ''19.5'')] price_keys = ''19.5''"
  "field [(''Doc #'', Some ''1001''), (''SKU'', Some ''X2''), (''Qty'', Some ''1,250''), (''Price'', Some ''abc'')] qty_keys = ''1,250''"
  "field [(''Doc #'', Some ''1001''), (''SKU'', Some ''X2''), (''Qty'', Some ''1,250''), (''Price'', Some ''abc'')] price_keys = ''abc''"
  by (simp_all add: doc_key_of_def first_in_def header_of_def keys_def doc_keys_def
      has_sku_def field_Cons field_Nil sku_keys_def qty_keys_def price_keys_def strip_def
      strip_left.simps leading_space_def SPACES_def)

lemma invariant_example_numbers:
  "format_2f (parse_number ''2'') = ''2.00''"
  "format_2f (parse_number ''19.5'') = ''19.50''"
  "format_2f (parse_number ''1,250'') = ''1250.00''"
  "format_2f (parse_number ''abc'') = ''0.00''"
  by code_simp+

lemma invariant_example_ascii:
  "ascii ''2''" "ascii ''19.5''" "ascii ''1,250''" "ascii ''abc''"
  by (simp_all add: ascii_def)

theorem C3_sparse_header_invariant_witness:
  "\<exists>out a b. fst (convert_rows
        \<lparr>salesperson_cache = None, directory = Absent,
         now = \<lparr>month = 11, day = 4, hour = 9, minute = 30\<rparr>\<rparr>
        [[(''Doc #'', Some ''1001''), (''SKU'', Some ''X1''), (''Qty'', Some ''2''), (''Price'', Some ''19.5'')],
         [(''Doc #'', Some ''1001''), (''SKU'', Some ''X2''), (''Qty'', Some ''1,250''), (''Price'', Some ''abc'')]])
       = Inr out
     \<and> out = [a, b]
     \<and> header_filled a \<and> \<not> header_blank a \<and> dom a = set TEMPLATE_HEADERS
     \<and> header_blank b \<and> \<not> header_filled b \<and> dom b = set TEMPLATE_HEADERS
     \<and> a ''order_line/product_uom_qty'' = Some ''2.00'' \<and> a ''order_line/price_unit'' = Some ''19.50''
     \<and> b ''order_line/product_uom_qty'' = Some ''1250.00'' \<and> b ''order_line/price_unit'' = Some ''0.00''"
proof -
  let ?w = "\<lparr>salesperson_cache = None, directory = Absent,
         now = \<lparr>month = 11, day = 4, hour = 9, minute = 30\<rparr>\<rparr>"
  let ?rows = "[[(''Doc #'', Some ''1001''), (''SKU'', Some ''X1''), (''Qty'', Some ''2''), (''Price'', Some ''19.5'')],
         [(''Doc #'', Some ''1001''), (''SKU'', Some ''X2''), (''Qty'', Some ''1,250''), (''Price'', Some ''abc'')]]"
  have hand: "directory_at_hand ?w" by (simp add: directory_at_hand_def)
  obtain out where out: "fst (convert_rows ?w ?rows) = Inr out"
    and inv: "\<forall>t \<in> set out. (header_filled t \<or> header_blank t) \<and> (header_filled t \<noteq> header_blank t)
                       \<and> dom t = set TEMPLATE_HEADERS"
    and starts: "map header_filled out =
         (case doc_key_of ?rows of
            Some dk \<Rightarrow> group_starts None (map (\<lambda>r. field r [dk]) (filter has_sku ?rows))
          | None \<Rightarrow> (case filter has_sku ?rows of [] \<Rightarrow> [] | r # rs \<Rightarrow> True # replicate (length rs) False))"
    and numbers: "list_all (\<lambda>r. ascii (field r qty_keys) \<and> ascii (field r price_keys)) (filter has_sku ?rows) \<longrightarrow>
          map (\<lambda>t. [t ''order_line/product_uom_qty'', t ''order_line/price_unit'']) out =
            map (\<lambda>r. [Some (format_2f (parse_number (field r qty_keys))),
                       Some (format_2f (parse_number (field r price_keys)))])
                (filter has_sku ?rows)"
    using C3_sparse_header_invariant [OF hand, of ?rows]
    by (elim exE conjE) (rule that, assumption+)
  have "map header_filled out = group_starts None [''1001'', ''1001'']"
    using starts by (simp only: invariant_example_rows option.case)
  then have "map header_filled out = [True, False]"
    by (simp add: opens_def)
  then obtain a b where ab: "out = [a, b]" "header_filled a" "\<not> header_filled b"
    by auto
  have ma: "a \<in> set out" and mb: "b \<in> set out" using ab by simp_all
  from inv ma have ia: "(header_filled a \<or> header_blank a) \<and> (header_filled a \<noteq> header_blank a)
      \<and> dom a = set TEMPLATE_HEADERS"
    by (rule bspec)
  from inv mb have ib: "(header_filled b \<or> header_blank b) \<and> (header_filled b \<noteq> header_blank b)
      \<and> dom b = set TEMPLATE_HEADERS"
    by (rule bspec)
  from ia have da: "dom a = set TEMPLATE_HEADERS" by (elim conjE)
  from ib have db: "dom b = set TEMPLATE_HEADERS" by (elim conjE)
  have blank: "\<not> header_blank a" "header_blank b" using ia ib ab by simp_all
  have "list_all (\<lambda>r. ascii (field r qty_keys) \<and> ascii (field r price_keys)) (filter has_sku ?rows)"
    by (simp only: invariant_example_rows list.pred_inject invariant_example_ascii simp_thms)
  with numbers have "map (\<lambda>t. [t ''order_line/product_uom_qty'', t ''order_line/price_unit'']) out =
            map (\<lambda>r. [Some (format_2f (parse_number (field r qty_keys))),
                       Some (format_2f (parse_number (field r price_keys)))])
                (filter has_sku ?rows)"
    by (rule mp)
  then have "map (\<lambda>t. [t ''order_line/product_uom_qty'', t ''order_line/price_unit'']) out =
      [[Some ''2.00'', Some ''19.50''], [Some ''1250.00'', Some ''0.00'']]"
    by (simp only: invariant_example_rows list.map invariant_example_numbers)
  then have vals: "a ''order_line/product_uom_qty'' = Some ''2.00''" "a ''order_line/price_unit'' = Some ''19.50''"
    "b ''order_line/product_uom_qty'' = Some ''1250.00''" "b ''order_line/price_unit'' = Some ''0.00''"
    by (simp_all only: ab(1) list.map list.inject)
  from out ab(1,2) blank(1) da blank(2) ab(3) db vals show ?thesis
    by (intro exI [of _ out] exI [of _ a] exI [of _ b] conjI)
qed

section \<open>The salesperson directory\<close>













lemma first_in_only:
  assumes "k \<in> set h" "k \<in> set al" "\<forall>a \<in> set al. a \<in> set h \<longrightarrow> a = k"
  shows "first_in h al = Some k"
proof (cases "first_in h al")
  case None
  then have "set h \<inter> set al = {}" by (simp add: first_in_None)
  then show ?thesis using assms(1,2) by auto
next
  case (Some a)
  then have "a \<in> set al \<and> a \<in> set h" by (rule first_in_Some)
  then have "a = k" using assms(3) by simp
  then show ?thesis using Some by simp
qed

text \<open>
  C10. In the document-number mode, the salesperson directory being at hand, the column
  \<open>Cust #\<close> holds on the first TemplateRow of a new order the text of the input column
  \<open>Cust #\<close> if that is not empty, otherwise the customer name if that is not empty, otherwise
  \<open>Default User\<close>; \<open>partner_id\<close> holds there the customer name, or \<open>Default User\<close> when
  that is empty; on every other TemplateRow both are empty. The customer code is read through
  the column \<open>Cust #\<close> exactly when the first row has that key, and the customer name through
  the first key of the first row that is a customer-name alias. The key \<open>Cust #\<close> is also a
  customer-name alias: when the first row has it and none of the other four aliases, the
  customer name is read through it, so that \<open>partner_id\<close> is the customer code.
\<close>

theorem C10_cust_code_fallback:
  "(directory_at_hand w \<and> doc_key_of rows = Some dk \<longrightarrow>
      (\<exists>out. fst (convert_rows w rows) = Inr out \<and> length out = length (filter has_sku rows)
         \<and> (\<forall>i < length out.
               (let r = filter has_sku rows ! i;
                    cust_value = (case cust_key_of rows of None \<Rightarrow> [] | Some k \<Rightarrow> field r [k]);
                    customer_name = (case customer_key_of rows of None \<Rightarrow> [] | Some k \<Rightarrow> field r [k])
                in (out ! i) ''Cust #'' =
                     (if group_starts None (map (\<lambda>r. field r [dk]) (filter has_sku rows)) ! i
                      then Some (if cust_value \<noteq> [] then cust_value
                                 else if customer_name \<noteq> [] then customer_name else ''Default User'')
                      else Some [])
                   \<and> (out ! i) ''partner_id'' =
                     (if group_starts None (map (\<lambda>r. field r [dk]) (filter has_sku rows)) ! i
                      then Some (if customer_name \<noteq> [] then customer_name else ''Default User'')
                      else Some [])))))
   \<and> (''Cust #'' \<in> set (header_of rows) \<longrightarrow> cust_key_of rows = Some ''Cust #'')
   \<and> (''Cust #'' \<notin> set (header_of rows) \<longrightarrow> cust_key_of rows = None)
   \<and> (''Cust #'' \<in> set (header_of rows)
        \<and> set (header_of rows) \<inter> {''Customer Name'', ''CUSTOMER NAME'', ''Customer'', ''CLIENTE''} = {}
        \<longrightarrow> customer_key_of rows = Some ''Cust #'')
   \<and> customer_key_of rows = first_in (header_of rows) customer_keys
   \<and> cust_key_of rows = first_in (header_of rows) cust_keys"
proof -
  have cust: "opt_field r (cust_key_of rows) =
      (case cust_key_of rows of None \<Rightarrow> [] | Some k \<Rightarrow> field r [k])" for r
    unfolding cust_key_of_def by (rule opt_field_first_in) (rule empty_not_alias)
  have customer: "opt_field r (customer_key_of rows) =
      (case customer_key_of rows of None \<Rightarrow> [] | Some k \<Rightarrow> field r [k])" for r
    unfolding customer_key_of_def by (rule opt_field_first_in) (rule empty_not_alias)
  have rows: "directory_at_hand w \<and> doc_key_of rows = Some dk \<longrightarrow>
      (\<exists>out. fst (convert_rows w rows) = Inr out \<and> length out = length (filter has_sku rows)
         \<and> (\<forall>i < length out.
               (let r = filter has_sku rows ! i;
                    cust_value = (case cust_key_of rows of None \<Rightarrow> [] | Some k \<Rightarrow> field r [k]);
                    customer_name = (case customer_key_of rows of None \<Rightarrow> [] | Some k \<Rightarrow> field r [k])
                in (out ! i) ''Cust #'' =
                     (if group_starts None (map (\<lambda>r. field r [dk]) (filter has_sku rows)) ! i
                      then Some (if cust_value \<noteq> [] then cust_value
                                 else if customer_name \<noteq> [] then customer_name else ''Default User'')
                      else Some [])
                   \<and> (out ! i) ''partner_id'' =
                     (if group_starts None (map (\<lambda>r. field r [dk]) (filter has_sku rows)) ! i
                      then Some (if customer_name \<noteq> [] then customer_name else ''Default User'')
                      else Some []))))"
  proof (intro impI, elim conjE)
    assume hand: "directory_at_hand w" and dk: "doc_key_of rows = Some dk"
    from rows_of_convert_rows [OF hand dk]
    obtain out where out: "fst (convert_rows w rows) = Inr out"
      "length out = length (filter has_sku rows)"
      and h: "\<forall>i < length out.
           out ! i =
             (if group_starts None (map (\<lambda>r. field r [dk]) (filter has_sku rows)) ! i
              then header_line dk (customer_key_of rows) (cust_key_of rows) (directory_of w)
                     (filter has_sku rows ! i)
              else plain_line (filter has_sku rows ! i))"
      by (elim exE conjE) (rule that, assumption+)
    have "\<forall>i < length out.
               (let r = filter has_sku rows ! i;
                    cust_value = (case cust_key_of rows of None \<Rightarrow> [] | Some k \<Rightarrow> field r [k]);
                    customer_name = (case customer_key_of rows of None \<Rightarrow> [] | Some k \<Rightarrow> field r [k])
                in (out ! i) ''Cust #'' =
                     (if group_starts None (map (\<lambda>r. field r [dk]) (filter has_sku rows)) ! i
                      then Some (if cust_value \<noteq> [] then cust_value
                                 else if customer_name \<noteq> [] then customer_name else ''Default User'')
                      else Some [])
                   \<and> (out ! i) ''partner_id'' =
                     (if group_starts None (map (\<lambda>r. field r [dk]) (filter has_sku rows)) ! i
                      then Some (if customer_name \<noteq> [] then customer_name else ''Default User'')
                      else Some []))"
    proof (intro allI impI)
      fix i
      assume "i < length out"
      then have "out ! i =
             (if group_starts None (map (\<lambda>r. field r [dk]) (filter has_sku rows)) ! i
              then header_line dk (customer_key_of rows) (cust_key_of rows) (directory_of w)
                     (filter has_sku rows ! i)
              else plain_line (filter has_sku rows ! i))"
        using h by simp
      then show "let r = filter has_sku rows ! i;
                    cust_value = (case cust_key_of rows of None \<Rightarrow> [] | Some k \<Rightarrow> field r [k]);
                    customer_name = (case customer_key_of rows of None \<Rightarrow> [] | Some k \<Rightarrow> field r [k])
                in (out ! i) ''Cust #'' =
                     (if group_starts None (map (\<lambda>r. field r [dk]) (filter has_sku rows)) ! i
                      then Some (if cust_value \<noteq> [] then cust_value
                                 else if customer_name \<noteq> [] then customer_name else ''Default User'')
                      else Some [])
                   \<and> (out ! i) ''partner_id'' =
                     (if group_starts None (map (\<lambda>r. field r [dk]) (filter has_sku rows)) ! i
                      then Some (if customer_name \<noteq> [] then customer_name else ''Default User'')
                      else Some [])"
        by (simp add: header_line_fields plain_line_fields Let_def or_else_def DEFAULT_USER_def
            cust customer)
    qed
    then show "\<exists>out. fst (convert_rows w rows) = Inr out \<and> length out = length (filter has_sku rows)
         \<and> (\<forall>i < length out.
               (let r = filter has_sku rows ! i;
                    cust_value = (case cust_key_of rows of None \<Rightarrow> [] | Some k \<Rightarrow> field r [k]);
                    customer_name = (case customer_key_of rows of None \<Rightarrow> [] | Some k \<Rightarrow> field r [k])
                in (out ! i) ''Cust #'' =
                     (if group_starts None (map (\<lambda>r. field r [dk]) (filter has_sku rows)) ! i
                      then Some (if cust_value \<noteq> [] then cust_value
                                 else if customer_name \<noteq> [] then customer_name else ''Default User'')
                      else Some [])
                   \<and> (out ! i) ''partner_id'' =
                     (if group_starts None (map (\<lambda>r. field r [dk]) (filter has_sku rows)) ! i
                      then Some (if customer_name \<noteq> [] then customer_name else ''Default User'')
                      else Some [])))"
      using out by (intro exI [of _ out] conjI)
  qed
  have present: "''Cust #'' \<in> set (header_of rows) \<longrightarrow> cust_key_of rows = Some ''Cust #''"
  proof
    assume "''Cust #'' \<in> set (header_of rows)"
    then show "cust_key_of rows = Some ''Cust #''"
      unfolding cust_key_of_def by (rule first_in_only) (simp_all add: cust_keys_def)
  qed
  have absent: "''Cust #'' \<notin> set (header_of rows) \<longrightarrow> cust_key_of rows = None"
    by (simp add: cust_key_of_def first_in_None cust_keys_def)
  have by_code: "''Cust #'' \<in> set (header_of rows)
        \<and> set (header_of rows) \<inter> {''Customer Name'', ''CUSTOMER NAME'', ''Customer'', ''CLIENTE''} = {}
        \<longrightarrow> customer_key_of rows = Some ''Cust #''"
  proof
    assume a: "''Cust #'' \<in> set (header_of rows)
        \<and> set (header_of rows) \<inter> {''Customer Name'', ''CUSTOMER NAME'', ''Customer'', ''CLIENTE''} = {}"
    then have only: "\<forall>k \<in> set customer_keys. k \<in> set (header_of rows) \<longrightarrow> k = ''Cust #''"
      by (auto simp: customer_keys_def)
    have member: "''Cust #'' \<in> set customer_keys" by (simp add: customer_keys_def)
    from a have there: "''Cust #'' \<in> set (header_of rows)" by (rule conjunct1)
    show "customer_key_of rows = Some ''Cust #''"
      unfolding customer_key_of_def using there member only by (rule first_in_only)
  qed
  from rows present absent by_code customer_key_of_def [of rows] cust_key_of_def [of rows]
  show ?thesis by (intro conjI)
qed

lemma cust_example_rows:
  "doc_key_of
     [[(''Doc #'', Some ''7''), (''Customer Name'', Some ''Acme''), (''Cust #'', Some ''C042''), (''SKU'', Some ''X1'')],
      [(''Doc #'', Some ''8''), (''Customer Name'', Some ''Bolt''), (''Cust #'', Some ''''), (''SKU'', Some ''X2'')],
      [(''Doc #'', Some ''9''), (''Customer Name'', Some ''''), (''Cust #'', Some ''''), (''SKU'', Some ''X3'')],
      [(''Doc #'', Some ''9''), (''Customer Name'', Some ''Zed''), (''Cust #'', Some ''C9''), (''SKU'', Some ''X4'')]] = Some ''Doc #''"
  "filter has_sku
     [[(''Doc #'', Some ''7''), (''Customer Name'', Some ''Acme''), (''Cust #'', Some ''C042''), (''SKU'', Some ''X1'')],
      [(''Doc #'', Some ''8''), (''Customer Name'', Some ''Bolt''), (''Cust #'', Some ''''), (''SKU'', Some ''X2'')],
      [(''Doc #'', Some ''9''), (''Customer Name'', Some ''''), (''Cust #'', Some ''''), (''SKU'', Some ''X3'')],
      [(''Doc #'', Some ''9''), (''Customer Name'', Some ''Zed''), (''Cust #'', Some ''C9''), (''SKU'', Some ''X4'')]]
   = [[(''Doc #'', Some ''7''), (''Customer Name'', Some ''Acme''), (''Cust #'', Some ''C042''), (''SKU'', Some ''X1'')],
      [(''Doc #'', Some ''8''), (''Customer Name'', Some ''Bolt''), (''Cust #'', Some ''''), (''SKU'', Some ''X2'')],
      [(''Doc #'', Some ''9''), (''Customer Name'', Some ''''), (''Cust #'', Some ''''), (''SKU'', Some ''X3'')],
      [(''Doc #'', Some ''9''), (''Customer Name'', Some ''Zed''), (''Cust #'', Some ''C9''), (''SKU'', Some ''X4'')]]"
  "group_starts None (map (\<lambda>r. field r [''Doc #''])
     [[(''Doc #'', Some ''7''), (''Customer Name'', Some ''Acme''), (''Cust #'', Some ''C042''), (''SKU'', Some ''X1'')],
      [(''Doc #'', Some ''8''), (''Customer Name'', Some ''Bolt''), (''Cust #'', Some ''''), (''SKU'', Some ''X2'')],
      [(''Doc #'', Some ''9''), (''Customer Name'', Some ''''), (''Cust #'', Some ''''), (''SKU'', Some ''X3'')],
      [(''Doc #'', Some ''9''), (''Customer Name'', Some ''Zed''), (''Cust #'', Some ''C9''), (''SKU'', Some ''X4'')]]) = [True, True, True, False]"
  "customer_key_of
     [[(''Doc #'', Some ''7''), (''Customer Name'', Some ''Acme''), (''Cust #'', Some ''C042''), (''SKU'', Some ''X1'')],
      [(''Doc #'', Some ''8''), (''Customer Name'', Some ''Bolt''), (''Cust #'', Some ''''), (''SKU'', Some ''X2'')],
      [(''Doc #'', Some ''9''), (''Customer Name'', Some ''''), (''Cust #'', Some ''''), (''SKU'', Some ''X3'')],
      [(''Doc #'', Some ''9''), (''Customer Name'', Some ''Zed''), (''Cust #'', Some ''C9''), (''SKU'', Some ''X4'')]] = Some ''Customer Name''"
  "cust_key_of
     [[(''Doc #'', Some ''7''), (''Customer Name'', Some ''Acme''), (''Cust #'', Some ''C042''), (''SKU'', Some ''X1'')],
      [(''Doc #'', Some ''8''), (''Customer Name'', Some ''Bolt''), (''Cust #'', Some ''''), (''SKU'', Some ''X2'')],
      [(''Doc #'', Some ''9''), (''Customer Name'', Some ''''), (''Cust #'', Some ''''), (''SKU'', Some ''X3'')],
      [(''Doc #'', Some ''9''), (''Customer Name'', Some ''Zed''), (''Cust #'', Some ''C9''), (''SKU'', Some ''X4'')]] = Some ''Cust #''"
  by (simp_all add: doc_key_of_def cust_key_of_def customer_key_of_def first_in_def header_of_def
      keys_def doc_keys_def cust_keys_def customer_keys_def opens_def
      has_sku_def field_Cons field_Nil sku_keys_def strip_def strip_left.simps leading_space_def
      SPACES_def)

lemma cust_example_fields:
  "field [(''Doc #'', Some ''7''), (''Customer Name'', Some ''Acme''), (''Cust #'', Some ''C042''), (''SKU'', Some ''X1'')] [''Cust #''] = ''C042''"
  "field [(''Doc #'', Some ''7''), (''Customer Name'', Some ''Acme''), (''Cust #'', Some ''C042''), (''SKU'', Some ''X1'')] [''Customer Name''] = ''Acme''"
  "field [(''Doc #'', Some ''8''), (''Customer Name'', Some ''Bolt''), (''Cust #'', Some ''''), (''SKU'', Some ''X2'')] [''Cust #''] = []"
  "field [(''Doc #'', Some ''8''), (''Customer Name'', Some ''Bolt''), (''Cust #'', Some ''''), (''SKU'', Some ''X2'')] [''Customer Name''] = ''Bolt''"
  "field [(''Doc #'', Some ''9''), (''Customer Name'', Some ''''), (''Cust #'', Some ''''), (''SKU'', Some ''X3'')] [''Cust #''] = []"
  "field [(''Doc #'', Some ''9''), (''Customer Name'', Some ''''), (''Cust #'', Some ''''), (''SKU'', Some ''X3'')] [''Customer Name''] = []"
  "field [(''Doc #'', Some ''9''), (''Customer Name'', Some ''Zed''), (''Cust #'', Some ''C9''), (''SKU'', Some ''X4'')] [''Cust #''] = ''C9''"
  "field [(''Doc #'', Some ''9''), (''Customer Name'', Some ''Zed''), (''Cust #'', Some ''C9''), (''SKU'', Some ''X4'')] [''Customer Name''] = ''Zed''"
  by (simp_all add: field_Cons field_Nil strip_def strip_left.simps leading_space_def SPACES_def)

lemma code_only_example:
  "doc_key_of [[(''Doc #'', Some ''7''), (''Cust #'', Some ''C042''), (''SKU'', Some ''X1'')]] = Some ''Doc #''"
  "filter has_sku [[(''Doc #'', Some ''7''), (''Cust #'', Some ''C042''), (''SKU'', Some ''X1'')]]
     = [[(''Doc #'', Some ''7''), (''Cust #'', Some ''C042''), (''SKU'', Some ''X1'')]]"
  "group_starts None (map (\<lambda>r. field r [''Doc #'']) [[(''Doc #'', Some ''7''), (''Cust #'', Some ''C042''), (''SKU'', Some ''X1'')]]) = [True]"
  "field [(''Doc #'', Some ''7''), (''Cust #'', Some ''C042''), (''SKU'', Some ''X1'')] [''Cust #''] = ''C042''"
  by (simp_all add: doc_key_of_def first_in_def header_of_def keys_def doc_keys_def opens_def
      has_sku_def field_Cons field_Nil sku_keys_def strip_def strip_left.simps leading_space_def
      SPACES_def)

theorem C10_cust_code_fallback_witness:
  "(\<exists>out. fst (convert_rows
        \<lparr>salesperson_cache = None, directory = Absent,
         now = \<lparr>month = 11, day = 4, hour = 9, minute = 30\<rparr>\<rparr>
        [[(''Doc #'', Some ''7''), (''Customer Name'', Some ''Acme''), (''Cust #'', Some ''C042''), (''SKU'', Some ''X1'')],
      [(''Doc #'', Some ''8''), (''Customer Name'', Some ''Bolt''), (''Cust #'', Some ''''), (''SKU'', Some ''X2'')],
      [(''Doc #'', Some ''9''), (''Customer Name'', Some ''''), (''Cust #'', Some ''''), (''SKU'', Some ''X3'')],
      [(''Doc #'', Some ''9''), (''Customer Name'', Some ''Zed''), (''Cust #'', Some ''C9''), (''SKU'', Some ''X4'')]]) = Inr out
     \<and> length out = 4
     \<and> (out ! 0) ''Cust #'' = Some ''C042'' \<and> (out ! 0) ''partner_id'' = Some ''Acme''
     \<and> (out ! 1) ''Cust #'' = Some ''Bolt'' \<and> (out ! 1) ''partner_id'' = Some ''Bolt''
     \<and> (out ! 2) ''Cust #'' = Some ''Default User'' \<and> (out ! 2) ''partner_id'' = Some ''Default User''
     \<and> (out ! 3) ''Cust #'' = Some [] \<and> (out ! 3) ''partner_id'' = Some [])
   \<and> (\<exists>out. fst (convert_rows
        \<lparr>salesperson_cache = None, directory = Absent,
         now = \<lparr>month = 11, day = 4, hour = 9, minute = 30\<rparr>\<rparr>
        [[(''Doc #'', Some ''7''), (''Cust #'', Some ''C042''), (''SKU'', Some ''X1'')]]) = Inr out
     \<and> length out = 1
     \<and> (out ! 0) ''Cust #'' = Some ''C042'' \<and> (out ! 0) ''partner_id'' = Some ''C042'')
   \<and> cust_key_of [[(''Doc #'', Some ''7''), (''Cust #'', Some ''C042''), (''SKU'', Some ''X1'')]] = Some ''Cust #''
   \<and> customer_key_of [[(''Doc #'', Some ''7''), (''Cust #'', Some ''C042''), (''SKU'', Some ''X1'')]] = Some ''Cust #''
   \<and> cust_key_of [[(''Doc #'', Some ''7''), (''SKU'', Some ''X1'')]] = None"
proof -
  let ?w = "\<lparr>salesperson_cache = None, directory = Absent,
         now = \<lparr>month = 11, day = 4, hour = 9, minute = 30\<rparr>\<rparr>"
  let ?rows = "[[(''Doc #'', Some ''7''), (''Customer Name'', Some ''Acme''), (''Cust #'', Some ''C042''), (''SKU'', Some ''X1'')],
      [(''Doc #'', Some ''8''), (''Customer Name'', Some ''Bolt''), (''Cust #'', Some ''''), (''SKU'', Some ''X2'')],
      [(''Doc #'', Some ''9''), (''Customer Name'', Some ''''), (''Cust #'', Some ''''), (''SKU'', Some ''X3'')],
      [(''Doc #'', Some ''9''), (''Customer Name'', Some ''Zed''), (''Cust #'', Some ''C9''), (''SKU'', Some ''X4'')]]"
  let ?one = "[[(''Doc #'', Some ''7''), (''Cust #'', Some ''C042''), (''SKU'', Some ''X1'')]]"
  have hand: "directory_at_hand ?w" by (simp add: directory_at_hand_def)
  note c10 = C10_cust_code_fallback [where w = ?w and rows = ?rows and dk = "''Doc #''"]
  note c10' = C10_cust_code_fallback [where w = ?w and rows = ?one and dk = "''Doc #''"]
  have "directory_at_hand ?w \<and> doc_key_of ?rows = Some ''Doc #'' \<longrightarrow>
      (\<exists>out. fst (convert_rows ?w ?rows) = Inr out \<and> length out = length (filter has_sku ?rows)
         \<and> (\<forall>i < length out.
               (let r = filter has_sku ?rows ! i;
                    cust_value = (case cust_key_of ?rows of None \<Rightarrow> [] | Some k \<Rightarrow> field r [k]);
                    customer_name = (case customer_key_of ?rows of None \<Rightarrow> [] | Some k \<Rightarrow> field r [k])
                in (out ! i) ''Cust #'' =
                     (if group_starts None (map (\<lambda>r. field r [''Doc #'']) (filter has_sku ?rows)) ! i
                      then Some (if cust_value \<noteq> [] then cust_value
                                 else if customer_name \<noteq> [] then customer_name else ''Default User'')
                      else Some [])
                   \<and> (out ! i) ''partner_id'' =
                     (if group_starts None (map (\<lambda>r. field r [''Doc #'']) (filter has_sku ?rows)) ! i
                      then Some (if customer_name \<noteq> [] then customer_name else ''Default User'')
                      else Some []))))"
    by (rule conjunct1 [OF c10])
  moreover have "directory_at_hand ?w \<and> doc_key_of ?rows = Some ''Doc #''"
    using hand cust_example_rows(1) by (intro conjI)
  ultimately have "\<exists>out. fst (convert_rows ?w ?rows) = Inr out \<and> length out = length (filter has_sku ?rows)
         \<and> (\<forall>i < length out.
               (let r = filter has_sku ?rows ! i;
                    cust_value = (case cust_key_of ?rows of None \<Rightarrow> [] | Some k \<Rightarrow> field r [k]);
                    customer_name = (case customer_key_of ?rows of None \<Rightarrow> [] | Some k \<Rightarrow> field r [k])
                in (out ! i) ''Cust #'' =
                     (if group_starts None (map (\<lambda>r. field r [''Doc #'']) (filter has_sku ?rows)) ! i
                      then Some (if cust_value \<noteq> [] then cust_value
                                 else if customer_name \<noteq> [] then customer_name else ''Default User'')
                      else Some [])
                   \<and> (out ! i) ''partner_id'' =
                     (if group_starts None (map (\<lambda>r. field r [''Doc #'']) (filter has_sku ?rows)) ! i
                      then Some (if customer_name \<noteq> [] then customer_name else ''Default User'')
                      else Some [])))"
    by (rule mp)
  then obtain out where out: "fst (convert_rows ?w ?rows) = Inr out"
    and len: "length out = length (filter has_sku ?rows)"
    and h: "\<forall>i < length out.
               (let r = filter has_sku ?rows ! i;
                    cust_value = (case cust_key_of ?rows of None \<Rightarrow> [] | Some k \<Rightarrow> field r [k]);
                    customer_name = (case customer_key_of ?rows of None \<Rightarrow> [] | Some k \<Rightarrow> field r [k])
                in (out ! i) ''Cust #'' =
                     (if group_starts None (map (\<lambda>r. field r [''Doc #'']) (filter has_sku ?rows)) ! i
                      then Some (if cust_value \<noteq> [] then cust_value
                                 else if customer_name \<noteq> [] then customer_name else ''Default User'')
                      else Some [])
                   \<and> (out ! i) ''partner_id'' =
                     (if group_starts None (map (\<lambda>r. field r [''Doc #'']) (filter has_sku ?rows)) ! i
                      then Some (if customer_name \<noteq> [] then customer_name else ''Default User'')
                      else Some []))"
    by (elim exE conjE) (rule that, assumption+)
  have four: "length out = 4" using len by (simp only: cust_example_rows(2)) simp
  have line: "(out ! i) ''Cust #'' =
        (if [True, True, True, False] ! i
         then Some (if field (?rows ! i) [''Cust #''] \<noteq> [] then field (?rows ! i) [''Cust #'']
                    else if field (?rows ! i) [''Customer Name''] \<noteq> []
                         then field (?rows ! i) [''Customer Name''] else ''Default User'')
         else Some [])
      \<and> (out ! i) ''partner_id'' =
        (if [True, True, True, False] ! i
         then Some (if field (?rows ! i) [''Customer Name''] \<noteq> []
                    then field (?rows ! i) [''Customer Name''] else ''Default User'')
         else Some [])" if "i < 4" for i
    using h [rule_format, of i] that
    unfolding four cust_example_rows(2) cust_example_rows(3) cust_example_rows(4)
      cust_example_rows(5) option.case Let_def
    by (rule meta_mp)
  have l0: "(out ! 0) ''Cust #'' = Some ''C042''" "(out ! 0) ''partner_id'' = Some ''Acme''"
    using line [of 0] by (simp_all add: cust_example_fields)
  have l1: "(out ! 1) ''Cust #'' = Some ''Bolt''" "(out ! 1) ''partner_id'' = Some ''Bolt''"
    using line [of 1] by (simp_all add: cust_example_fields)
  have l2: "(out ! 2) ''Cust #'' = Some ''Default User''" "(out ! 2) ''partner_id'' = Some ''Default User''"
    using line [of 2] by (simp_all add: cust_example_fields)
  have l3: "(out ! 3) ''Cust #'' = Some []" "(out ! 3) ''partner_id'' = Some []"
    using line [of 3] by (simp_all add: cust_example_fields)
  have first: "\<exists>out. fst (convert_rows ?w ?rows) = Inr out
     \<and> length out = 4
     \<and> (out ! 0) ''Cust #'' = Some ''C042'' \<and> (out ! 0) ''partner_id'' = Some ''Acme''
     \<and> (out ! 1) ''Cust #'' = Some ''Bolt'' \<and> (out ! 1) ''partner_id'' = Some ''Bolt''
     \<and> (out ! 2) ''Cust #'' = Some ''Default User'' \<and> (out ! 2) ''partner_id'' = Some ''Default User''
     \<and> (out ! 3) ''Cust #'' = Some [] \<and> (out ! 3) ''partner_id'' = Some []"
    using out four l0 l1 l2 l3 by (intro exI [of _ out] conjI)
  have hdr: "''Cust #'' \<in> set (header_of ?one)" by (simp add: header_of_def keys_def)
  have no_name: "set (header_of ?one) \<inter> {''Customer Name'', ''CUSTOMER NAME'', ''Customer'', ''CLIENTE''} = {}"
    by (simp add: header_of_def keys_def)
  have ck: "cust_key_of ?one = Some ''Cust #''"
    by (rule mp [OF conjunct1 [OF conjunct2 [OF c10']] hdr])
  have nk: "customer_key_of ?one = Some ''Cust #''"
    by (rule mp [OF conjunct1 [OF conjunct2 [OF conjunct2 [OF conjunct2 [OF c10']]]] conjI [OF hdr no_name]])
  have no_hdr: "''Cust #'' \<notin> set (header_of [[(''Doc #'', Some ''7''), (''SKU'', Some ''X1'')]])"
    by (simp add: header_of_def keys_def)
  have no_ck: "cust_key_of [[(''Doc #'', Some ''7''), (''SKU'', Some ''X1'')]] = None"
    by (rule mp [OF conjunct1 [OF conjunct2 [OF conjunct2
        [OF C10_cust_code_fallback [where rows = "[[(''Doc #'', Some ''7''), (''SKU'', Some ''X1'')]]"]]]] no_hdr])
  have "directory_at_hand ?w \<and> doc_key_of ?one = Some ''Doc #'' \<longrightarrow>
      (\<exists>out. fst (convert_rows ?w ?one) = Inr out \<and> length out = length (filter has_sku ?one)
         \<and> (\<forall>i < length out.
               (let r = filter has_sku ?one ! i;
                    cust_value = (case cust_key_of ?one of None \<Rightarrow> [] | Some k \<Rightarrow> field r [k]);
                    customer_name = (case customer_key_of ?one of None \<Rightarrow> [] | Some k \<Rightarrow> field r [k])
                in (out ! i) ''Cust #'' =
                     (if group_starts None (map (\<lambda>r. field r [''Doc #'']) (filter has_sku ?one)) ! i
                      then Some (if cust_value \<noteq> [] then cust_value
                                 else if customer_name \<noteq> [] then customer_name else ''Default User'')
                      else Some [])
                   \<and> (out ! i) ''partner_id'' =
                     (if group_starts None (map (\<lambda>r. field r [''Doc #'']) (filter has_sku ?one)) ! i
                      then Some (if customer_name \<noteq> [] then customer_name else ''Default User'')
                      else Some []))))"
    by (rule conjunct1 [OF c10'])
  moreover have "directory_at_hand ?w \<and> doc_key_of ?one = Some ''Doc #''"
    using hand code_only_example(1) by (intro conjI)
  ultimately have "\<exists>out. fst (convert_rows ?w ?one) = Inr out \<and> length out = length (filter has_sku ?one)
         \<and> (\<forall>i < length out.
               (let r = filter has_sku ?one ! i;
                    cust_value = (case cust_key_of ?one of None \<Rightarrow> [] | Some k \<Rightarrow> field r [k]);
                    customer_name = (case customer_key_of ?one of None \<Rightarrow> [] | Some k \<Rightarrow> field r [k])
                in (out ! i) ''Cust #'' =
                     (if group_starts None (map (\<lambda>r. field r [''Doc #'']) (filter has_sku ?one)) ! i
                      then Some (if cust_value \<noteq> [] then cust_value
                                 else if customer_name \<noteq> [] then customer_name else ''Default User'')
                      else Some [])
                   \<and> (out ! i) ''partner_id'' =
                     (if group_starts None (map (\<lambda>r. field r [''Doc #'']) (filter has_sku ?one)) ! i
                      then Some (if customer_name \<noteq> [] then customer_name else ''Default User'')
                      else Some [])))"
    by (rule mp)
  then obtain out' where out': "fst (convert_rows ?w ?one) = Inr out'"
    and len': "length out' = length (filter has_sku ?one)"
    and h': "\<forall>i < length out'.
               (let r = filter has_sku ?one ! i;
                    cust_value = (case cust_key_of ?one of None \<Rightarrow> [] | Some k \<Rightarrow> field r [k]);
                    customer_name = (case customer_key_of ?one of None \<Rightarrow> [] | Some k \<Rightarrow> field r [k])
                in (out' ! i) ''Cust #'' =
                     (if group_starts None (map (\<lambda>r. field r [''Doc #'']) (filter has_sku ?one)) ! i
                      then Some (if cust_value \<noteq> [] then cust_value
                                 else if customer_name \<noteq> [] then customer_name else ''Default User'')
                      else Some [])
                   \<and> (out' ! i) ''partner_id'' =
                     (if group_starts None (map (\<lambda>r. field r [''Doc #'']) (filter has_sku ?one)) ! i
                      then Some (if customer_name \<noteq> [] then customer_name else ''Default User'')
                      else Some []))"
    by (elim exE conjE) (rule that, assumption+)
  have one: "length out' = 1" using len' by (simp only: code_only_example(2)) simp
  have "(out' ! 0) ''Cust #'' =
        (if [True] ! 0
         then Some (if field (?one ! 0) [''Cust #''] \<noteq> [] then field (?one ! 0) [''Cust #'']
                    else if field (?one ! 0) [''Cust #''] \<noteq> []
                         then field (?one ! 0) [''Cust #''] else ''Default User'')
         else Some [])
      \<and> (out' ! 0) ''partner_id'' =
        (if [True] ! 0
         then Some (if field (?one ! 0) [''Cust #''] \<noteq> []
                    then field (?one ! 0) [''Cust #''] else ''Default User'')
         else Some [])"
    using h' [rule_format, of 0] zero_less_one [where 'a = nat]
    unfolding one code_only_example(2) code_only_example(3) ck nk option.case Let_def
    by (rule meta_mp)
  then have c: "(out' ! 0) ''Cust #'' = Some ''C042''" "(out' ! 0) ''partner_id'' = Some ''C042''"
    by (simp_all add: code_only_example(4))
  have second: "\<exists>out. fst (convert_rows ?w ?one) = Inr out
     \<and> length out = 1
     \<and> (out ! 0) ''Cust #'' = Some ''C042'' \<and> (out ! 0) ''partner_id'' = Some ''C042''"
    using out' one c by (intro exI [of _ out'] conjI)
  from first second ck nk no_ck show ?thesis by (intro conjI)
qed

end
